theory Spec2Isabelle
  imports Main
begin

section \<open>The registry front-end and the mirror proxy (internal/registry/registry.go)\<close>

subsection \<open>Requests, responses and the calls on injected collaborators\<close>

type_synonym digest = string

text \<open>A Go \<open>error\<close> value, identified by its message.\<close>

datatype error = Err string

text \<open>
  The part of \<open>http.Request\<close> the handlers read. Header keys are canonical (the Go server
  canonicalises them on receipt) and a header holds a list of values; \<open>Header.Get\<close>
  returns the first value, or the empty string when the key is absent.
\<close>

record request =
  req_method :: string
  url_path :: string
  url_query :: "(string \<times> string) list"
  header :: "string \<rightharpoonup> string list"
  host :: string

definition Header_Get :: "(string \<rightharpoonup> string list) \<Rightarrow> string \<Rightarrow> string" where
  "Header_Get h k = (case h k of None \<Rightarrow> [] | Some [] \<Rightarrow> [] | Some (v # _) \<Rightarrow> v)"

definition Header_Set :: "(string \<rightharpoonup> string list) \<Rightarrow> string \<Rightarrow> string \<Rightarrow> (string \<rightharpoonup> string list)" where
  "Header_Set h k v = h(k \<mapsto> [v])"

definition MirroredHeaderKey :: string where
  "MirroredHeaderKey = ''X-Spegel-Mirrored''"

text \<open>
  Every call a handler makes on a collaborator outside the process (the peer router, a
  peer, the local OCI store) is logged in the context, in order, so that "never forwarded"
  and "before any store access" are statements about this log. \<open>ResolveDeadline\<close> marks
  that the handler left its select through the \<open>resolveCtx.Done()\<close> case, that is, that
  it was still running when the resolve timeout expired.
\<close>

datatype effect =
    RouterResolve string bool int
  | ResolveDeadline
  | ProxyAttempt string
  | StoreResolve string
  | StoreGetBlob digest
  | StoreGetSize digest
  | StoreWriteBlob digest

text \<open>
  The \<open>gin.Context\<close> of one request: the request, gin's response writer (the status it
  holds, whether the header has been written, the response header and the bytes written
  to the client), \<open>c.Errors\<close>, the abort flag, the \<open>handler\<close> key and the log of calls.
\<close>

record gin_context =
  req :: request
  status :: nat
  written :: bool
  rheader :: "string \<rightharpoonup> string list"
  body :: string
  errors :: "error list"
  aborted :: bool
  handler_key :: "string option"
  trace :: "effect list"

definition new_context :: "request \<Rightarrow> gin_context" where
  "new_context rq = \<lparr>req = rq, status = 200, written = False, rheader = Map.empty,
     body = [], errors = [], aborted = False, handler_key = None, trace = []\<rparr>"

definition log_effect :: "effect \<Rightarrow> gin_context \<Rightarrow> gin_context" where
  "log_effect e c = c\<lparr>trace := trace c @ [e]\<rparr>"

definition Query :: "gin_context \<Rightarrow> string \<Rightarrow> string" where
  "Query c k = (case map_of (url_query (req c)) k of None \<Rightarrow> [] | Some v \<Rightarrow> v)"

text \<open>
  gin's response writer. \<open>WriteHeader\<close> only records the code, and refuses to change it
  once the header has been written; \<open>WriteHeaderNow\<close> commits the header;
  \<open>AbortWithStatus\<close> is \<open>Status\<close>, \<open>WriteHeaderNow\<close>, \<open>Abort\<close>; \<open>AbortWithError\<close> is
  \<open>AbortWithStatus\<close> followed by pushing the error on \<open>c.Errors\<close>. None of them writes
  a body.
\<close>

definition Status :: "nat \<Rightarrow> gin_context \<Rightarrow> gin_context" where
  "Status code c = (if 0 < code \<and> status c \<noteq> code \<and> \<not> written c then c\<lparr>status := code\<rparr> else c)"

definition WriteHeaderNow :: "gin_context \<Rightarrow> gin_context" where
  "WriteHeaderNow c = c\<lparr>written := True\<rparr>"

definition AbortWithStatus :: "nat \<Rightarrow> gin_context \<Rightarrow> gin_context" where
  "AbortWithStatus code c = (WriteHeaderNow (Status code c))\<lparr>aborted := True\<rparr>"

definition AbortWithError :: "nat \<Rightarrow> error \<Rightarrow> gin_context \<Rightarrow> gin_context" where
  "AbortWithError code err c = (let c' = AbortWithStatus code c in c'\<lparr>errors := errors c' @ [err]\<rparr>)"

definition SetHeader :: "string \<Rightarrow> string \<Rightarrow> gin_context \<Rightarrow> gin_context" where
  "SetHeader k v c = (if v = [] then c\<lparr>rheader := (rheader c)(k := None)\<rparr>
     else c\<lparr>rheader := (rheader c)(k \<mapsto> [v])\<rparr>)"

text \<open>
  \<open>c.Writer.Write\<close>: commits the header, then writes to the connection. The connection
  either takes the bytes or fails with the error given (nothing is appended then).
\<close>

definition Write :: "error option \<Rightarrow> string \<Rightarrow> gin_context \<Rightarrow> gin_context \<times> error option" where
  "Write connErr b c = (case connErr of
       None \<Rightarrow> ((WriteHeaderNow c)\<lparr>body := body c @ b\<rparr>, None)
     | Some e \<Rightarrow> (WriteHeaderNow c, Some e))"

subsection \<open>Library functions of the Go standard library used by the handlers\<close>

text \<open>\<open>strings.Cut(s, sep)\<close> for a one-byte separator: cuts at the first occurrence.\<close>

fun strings_Cut :: "string \<Rightarrow> char \<Rightarrow> string \<times> string \<times> bool" where
  "strings_Cut [] sep = ([], [], False)"
| "strings_Cut (x # xs) sep =
     (if x = sep then ([], xs, True)
      else (case strings_Cut xs sep of
              (before, after, found) \<Rightarrow> (x # before, (if found then after else []), found)))"

fun split_on :: "char \<Rightarrow> string \<Rightarrow> string list" where
  "split_on sep [] = [[]]"
| "split_on sep (x # xs) =
     (if x = sep then [] # split_on sep xs
      else (case split_on sep xs of [] \<Rightarrow> [[x]] | y # ys \<Rightarrow> (x # y) # ys))"

fun join_with :: "char \<Rightarrow> string list \<Rightarrow> string" where
  "join_with sep [] = []"
| "join_with sep [x] = x"
| "join_with sep (x # y # ys) = x @ sep # join_with sep (y # ys)"

text \<open>
  \<open>path.Clean\<close>: empty and \<open>.\<close> elements are dropped, \<open>..\<close> removes the element before
  it (at the root it is dropped, in a relative path a leading \<open>..\<close> stays), and the
  empty result is \<open>.\<close>.
\<close>

definition clean_step :: "bool \<Rightarrow> string list \<Rightarrow> string \<Rightarrow> string list" where
  "clean_step rooted stack elem =
     (if elem = [] \<or> elem = ''.'' then stack
      else if elem = ''..'' then
        (if stack \<noteq> [] \<and> last stack \<noteq> ''..'' then butlast stack
         else if rooted then stack else stack @ [elem])
      else stack @ [elem])"

definition path_Clean :: "string \<Rightarrow> string" where
  "path_Clean p =
     (if p = [] then ''.''
      else let rooted = (hd p = CHR ''/'');
               out = (if rooted then ''/'' else []) @
                     join_with (CHR ''/'') (foldl (clean_step rooted) [] (split_on (CHR ''/'') p))
           in if out = [] then ''.'' else out)"

text \<open>\<open>strconv.FormatInt(n, 10)\<close>.\<close>

fun format_nat :: "nat \<Rightarrow> string" where
  "format_nat n =
     (if n < 10 then [char_of (48 + n)]
      else format_nat (n div 10) @ [char_of (48 + n mod 10)])"

declare format_nat.simps [simp del]

definition FormatInt :: "int \<Rightarrow> string" where
  "FormatInt i = (if i < 0 then CHR ''-'' # format_nat (nat (- i)) else format_nat (nat i))"

subsection \<open>The injected collaborators\<close>

text \<open>
  The reference kind returned by \<open>oci.ParsePathComponents\<close>; the third constructor stands
  for any value that is neither of the two the handler's switch names.
\<close>

datatype referenceType = ReferenceTypeManifest | ReferenceTypeBlob | ReferenceTypeOther

text \<open>
  \<open>oci.Client\<close>, the local OCI store. \<open>WriteBlob\<close> streams into the response writer, so
  its result is the bytes that reached the writer together with the error it returned.
\<close>

record ociClient =
  Resolve :: "string \<Rightarrow> error + digest"
  GetBlob :: "digest \<Rightarrow> error + (string \<times> string)"
  GetSize :: "digest \<Rightarrow> error + int"
  WriteBlob :: "digest \<Rightarrow> string \<times> error option"

text \<open>
  The channel \<open>router.Resolve\<close> returns: nil, or a channel that yields the listed peers
  and is then closed by the resolver (\<open>True\<close>) or stays open and silent (\<open>False\<close>).
\<close>

datatype mirror_chan = NilChan | Chan "string list" bool

record router =
  router_Resolve :: "string \<Rightarrow> bool \<Rightarrow> int \<Rightarrow> mirror_chan \<times> error option"

record registry =
  ociClient :: ociClient
  router :: router
  resolveRetries :: int
  resolveLatestTag :: bool
  localAddr :: string

text \<open>What one round trip to a peer gives: a transport error, or a status and a body.\<close>

datatype peer_response = TransportError | Response nat "string \<rightharpoonup> string list" string

text \<open>
  Everything else a request meets. \<open>parsePathComponents\<close> is
  \<open>oci.ParsePathComponents\<close> (its file is not part of the sources at hand, so the handler
  takes it as a parameter); \<open>urlParse\<close> is \<open>url.Parse\<close>; \<open>roundTrip\<close> is the peer
  answering the proxied request; \<open>deadlineAfter\<close> is the number of times the select of
  the mirror loop takes the channel case before the resolve deadline is taken (the
  deadline of \<open>context.WithTimeout\<close> always fires, so the number is finite);
  \<open>clientWriteErr\<close> is the error, if any, of writing to the client connection.
\<close>

record world =
  parsePathComponents :: "string \<Rightarrow> string \<Rightarrow> error + (string \<times> digest \<times> referenceType)"
  urlParse :: "string \<Rightarrow> error + string"
  roundTrip :: "string \<Rightarrow> request \<Rightarrow> peer_response"
  deadlineAfter :: nat
  clientWriteErr :: "error option"

subsection \<open>handleMirror\<close>

definition isExternalRequest :: "registry \<Rightarrow> gin_context \<Rightarrow> bool" where
  "isExternalRequest r c = (host (req c) \<noteq> localAddr r)"

definition copyHeader :: "(string \<rightharpoonup> string list) \<Rightarrow> (string \<rightharpoonup> string list) \<Rightarrow> (string \<rightharpoonup> string list)" where
  "copyHeader dst src = (\<lambda>k. case src k of None \<Rightarrow> dst k
       | Some vs \<Rightarrow> Some ((case dst k of None \<Rightarrow> [] | Some ws \<Rightarrow> ws) @ vs))"

text \<open>
  One \<open>proxy.ServeHTTP\<close> of \<open>httputil.ReverseProxy\<close> with the two hooks the handler
  installs. A transport error goes to \<open>ErrorHandler\<close>, which does nothing. A response
  goes to \<open>ModifyResponse\<close> first: it returns an error unless the status is 200, and the
  reverse proxy then calls \<open>ErrorHandler\<close> and writes nothing; on 200 it sets
  \<open>succeeded\<close>, and the reverse proxy copies header, status and body to the writer
  (\<open>io.Copy\<close> calls \<open>Write\<close> only when there are bytes). The result is \<open>succeeded\<close>
  and the context.
\<close>

definition proxy_ServeHTTP :: "world \<Rightarrow> string \<Rightarrow> gin_context \<Rightarrow> bool \<times> gin_context" where
  "proxy_ServeHTTP w u c =
     (let c0 = log_effect (ProxyAttempt u) c in
      case roundTrip w u (req c0) of
        TransportError \<Rightarrow> (False, c0)
      | Response code hdr b \<Rightarrow>
          if code \<noteq> 200 then (False, c0)
          else let c1 = Status code (c0\<lparr>rheader := copyHeader (rheader c0) hdr\<rparr>)
               in (True, if b = [] then c1 else fst (Write (clientWriteErr w) b c1)))"

text \<open>
  The \<open>for { select { ... } }\<close> loop. The first argument counts the channel cases the
  select may still take before the deadline case; a nil channel and an open, empty
  channel never become ready, so the select leaves through the deadline case.
\<close>

definition could_not_resolve :: "string \<Rightarrow> error" where
  "could_not_resolve key = Err (''could not resolve mirror for key: '' @ key)"

definition resolution_exhausted :: error where
  "resolution_exhausted = Err ''mirror resolution has been exhausted''"

definition on_deadline :: "string \<Rightarrow> gin_context \<Rightarrow> gin_context" where
  "on_deadline key c = AbortWithError 404 (could_not_resolve key) (log_effect ResolveDeadline c)"

fun mirror_loop :: "world \<Rightarrow> string \<Rightarrow> nat \<Rightarrow> mirror_chan \<Rightarrow> gin_context \<Rightarrow> gin_context" where
  "mirror_loop w key 0 ch c = on_deadline key c"
| "mirror_loop w key (Suc n) NilChan c = on_deadline key c"
| "mirror_loop w key (Suc n) (Chan [] closed) c =
     (if closed then AbortWithError 500 resolution_exhausted c else on_deadline key c)"
| "mirror_loop w key (Suc n) (Chan (mirror # ms) closed) c =
     (case urlParse w mirror of
        Inl err \<Rightarrow> AbortWithError 500 err c
      | Inr u \<Rightarrow>
          (case proxy_ServeHTTP w u c of
             (succeeded, c') \<Rightarrow>
               if \<not> succeeded then mirror_loop w key n (Chan ms closed) c' else c'))"

text \<open>
  \<open>handleMirror\<close>. After a failed \<open>router.Resolve\<close> the source calls
  \<open>AbortWithError\<close> and, having no \<open>return\<close> there, goes on into the loop.
\<close>

definition handleMirror :: "registry \<Rightarrow> world \<Rightarrow> gin_context \<Rightarrow> string \<Rightarrow> gin_context" where
  "handleMirror r w c key =
     (let c0 = c\<lparr>handler_key := Some ''mirror''\<rparr>;
          isExternal = isExternalRequest r c0;
          c1 = log_effect (RouterResolve key isExternal (resolveRetries r)) c0
      in case router_Resolve (router r) key isExternal (resolveRetries r) of
           (mirrorCh, rerr) \<Rightarrow>
             let c2 = (case rerr of None \<Rightarrow> c1 | Some err \<Rightarrow> AbortWithError 500 err c1)
             in mirror_loop w key (deadlineAfter w) mirrorCh c2)"

subsection \<open>handleManifest and handleBlob\<close>

definition handleManifest :: "registry \<Rightarrow> world \<Rightarrow> gin_context \<Rightarrow> digest \<Rightarrow> gin_context" where
  "handleManifest r w c dgst =
     (let c0 = log_effect (StoreGetBlob dgst) (c\<lparr>handler_key := Some ''manifest''\<rparr>)
      in case GetBlob (ociClient r) dgst of
           Inl err \<Rightarrow> AbortWithError 404 err c0
         | Inr (b, mediaType) \<Rightarrow>
             let c1 = SetHeader ''Docker-Content-Digest'' dgst
                        (SetHeader ''Content-Length'' (FormatInt (int (length b)))
                          (SetHeader ''Content-Type'' mediaType c0))
             in if req_method (req c1) = ''HEAD'' then c1
                else (case Write (clientWriteErr w) b c1 of
                        (c2, None) \<Rightarrow> c2
                      | (c2, Some err) \<Rightarrow> AbortWithError 404 err c2))"

definition handleBlob :: "registry \<Rightarrow> world \<Rightarrow> gin_context \<Rightarrow> digest \<Rightarrow> gin_context" where
  "handleBlob r w c dgst =
     (let c0 = log_effect (StoreGetSize dgst) (c\<lparr>handler_key := Some ''blob''\<rparr>)
      in case GetSize (ociClient r) dgst of
           Inl err \<Rightarrow> AbortWithError 500 err c0
         | Inr sz \<Rightarrow>
             let c1 = SetHeader ''Docker-Content-Digest'' dgst
                        (SetHeader ''Content-Length'' (FormatInt sz) c0)
             in if req_method (req c1) = ''HEAD'' then c1
                else (case WriteBlob (ociClient r) dgst of
                        (bs, werr) \<Rightarrow>
                          let c2 = log_effect (StoreWriteBlob dgst) c1;
                              c3 = (if bs = [] then c2 else (WriteHeaderNow c2)\<lparr>body := body c2 @ bs\<rparr>)
                          in (case werr of None \<Rightarrow> c3 | Some err \<Rightarrow> AbortWithError 500 err c3)))"

subsection \<open>registryHandler\<close>

definition latest_gate :: "registry \<Rightarrow> string \<Rightarrow> bool" where
  "latest_gate r ref =
     (\<not> resolveLatestTag r \<and> ref \<noteq> [] \<and>
      (case strings_Cut ref (CHR '':'') of (_, tag, _) \<Rightarrow> tag = ''latest''))"

definition serve_local :: "registry \<Rightarrow> world \<Rightarrow> gin_context \<Rightarrow> string \<Rightarrow> digest \<Rightarrow> referenceType \<Rightarrow> gin_context" where
  "serve_local r w c ref dgst refType =
     (case (if dgst = [] then (log_effect (StoreResolve ref) c, Resolve (ociClient r) ref)
            else (c, Inr dgst)) of
        (c1, Inl err) \<Rightarrow> AbortWithError 404 err c1
      | (c1, Inr d) \<Rightarrow>
          (case refType of
             ReferenceTypeManifest \<Rightarrow> handleManifest r w c1 d
           | ReferenceTypeBlob \<Rightarrow> handleBlob r w c1 d
           | ReferenceTypeOther \<Rightarrow> Status 404 c1))"

definition registryHandler :: "registry \<Rightarrow> world \<Rightarrow> gin_context \<Rightarrow> gin_context" where
  "registryHandler r w c =
     (if \<not> (req_method (req c) = ''GET'' \<or> req_method (req c) = ''HEAD'') then Status 404 c
      else if path_Clean (url_path (req c)) = ''/v2'' then
        (if req_method (req c) \<noteq> ''GET'' then Status 404 c else Status 200 c)
      else
        (case parsePathComponents w (Query c ''ns'') (url_path (req c)) of
           Inl err \<Rightarrow> AbortWithError 404 err c
         | Inr (ref, dgst, refType) \<Rightarrow>
             if latest_gate r ref then AbortWithStatus 404 c
             else if Header_Get (header (req c)) MirroredHeaderKey \<noteq> ''true'' then
               (let c1 = c\<lparr>req := (req c)\<lparr>header := Header_Set (header (req c)) MirroredHeaderKey ''true''\<rparr>\<rparr>;
                    key = (if dgst = [] then ref else dgst)
                in handleMirror r w c1 key)
             else serve_local r w c ref dgst refType))"


subsection \<open>Notions used in the statements about the handlers\<close>

text \<open>The calls that stay on the node: those on the local OCI store.\<close>

fun is_store_call :: "effect \<Rightarrow> bool" where
  "is_store_call (StoreResolve _) = True"
| "is_store_call (StoreGetBlob _) = True"
| "is_store_call (StoreGetSize _) = True"
| "is_store_call (StoreWriteBlob _) = True"
| "is_store_call _ = False"

text \<open>The peers a request was proxied to, in order.\<close>

fun attempts :: "effect list \<Rightarrow> string list" where
  "attempts [] = []"
| "attempts (ProxyAttempt u # es) = u # attempts es"
| "attempts (_ # es) = attempts es"

definition peer_ok :: "world \<Rightarrow> request \<Rightarrow> string \<Rightarrow> bool" where
  "peer_ok w rq u = (case roundTrip w u rq of TransportError \<Rightarrow> False | Response code _ _ \<Rightarrow> code = 200)"

definition peer_body :: "world \<Rightarrow> request \<Rightarrow> string \<Rightarrow> string" where
  "peer_body w rq u = (case roundTrip w u rq of TransportError \<Rightarrow> [] | Response _ _ b \<Rightarrow> b)"

text \<open>
  The candidates a sequential proxy with failover tries: each one in order, up to and
  including the first that succeeds.
\<close>

fun upto_first_success :: "(string \<Rightarrow> bool) \<Rightarrow> string list \<Rightarrow> string list" where
  "upto_first_success ok [] = []"
| "upto_first_success ok (u # us) = (if ok u then [u] else u # upto_first_success ok us)"

text \<open>
  The bytes the client is owed from a list of candidates: the body of the first one that
  answers 200 (as far as the client connection takes it), and nothing from any other.
\<close>

definition forwarded_bytes :: "world \<Rightarrow> request \<Rightarrow> string list \<Rightarrow> string" where
  "forwarded_bytes w rq us = (case List.find (peer_ok w rq) us of None \<Rightarrow> []
      | Some u \<Rightarrow> if clientWriteErr w = None then peer_body w rq u else [])"

fun chan_items :: "mirror_chan \<Rightarrow> string list" where
  "chan_items NilChan = []"
| "chan_items (Chan ms _) = ms"

text \<open>
  Whether the select sees the channel closed before it takes the deadline case, when no
  attempt succeeds: the resolver closes the channel, and every peer on it is received
  before the deadline.
\<close>

fun closed_first :: "nat \<Rightarrow> mirror_chan \<Rightarrow> bool" where
  "closed_first n (Chan ms True) = (length ms < n)"
| "closed_first n _ = False"

text \<open>
  What the client gets of a response: the status, whether the header is committed, the
  response header and the body.
\<close>

definition client_view :: "gin_context \<Rightarrow> nat \<times> bool \<times> (string \<rightharpoonup> string list) \<times> string" where
  "client_view c = (status c, written c, rheader c, body c)"

definition peer_header :: "world \<Rightarrow> request \<Rightarrow> string \<Rightarrow> (string \<rightharpoonup> string list)" where
  "peer_header w rq u = (case roundTrip w u rq of TransportError \<Rightarrow> Map.empty | Response _ h _ \<Rightarrow> h)"

text \<open>
  A 200 response with header \<open>hdr\<close> and body \<open>b\<close> passed on to the client: the status
  becomes 200 unless a header was committed before, the peer's header lines are added,
  and the body follows (as far as the connection takes it).
\<close>

definition respond_200 :: "(string \<rightharpoonup> string list) \<Rightarrow> string \<Rightarrow> error option \<Rightarrow> gin_context \<Rightarrow> gin_context" where
  "respond_200 hdr b connErr c =
     c\<lparr>status := (if written c then status c else 200),
       written := (written c \<or> b \<noteq> []),
       rheader := copyHeader (rheader c) hdr,
       body := body c @ (if connErr = None then b else [])\<rparr>"

text \<open>The context once \<open>router.Resolve\<close> has returned: untouched, or aborted with 500.\<close>

definition after_resolve :: "error option \<Rightarrow> gin_context \<Rightarrow> gin_context" where
  "after_resolve rerr c = (case rerr of None \<Rightarrow> c | Some err \<Rightarrow> AbortWithError 500 err c)"

text \<open>The handler's own answer when no attempt succeeded: exhausted, or timed out.\<close>

definition gave_up :: "string \<Rightarrow> nat \<Rightarrow> mirror_chan \<Rightarrow> gin_context \<Rightarrow> gin_context" where
  "gave_up key n ch c =
     (if closed_first n ch then AbortWithError 500 resolution_exhausted c else on_deadline key c)"

text \<open>The context with the proxy attempts on the given peers added to its log.\<close>

definition logged_attempts :: "string list \<Rightarrow> gin_context \<Rightarrow> gin_context" where
  "logged_attempts us c = c\<lparr>trace := trace c @ map ProxyAttempt us\<rparr>"

subsection \<open>A node, its peers and the requests used as examples\<close>

definition peer1 :: string where "peer1 = ''http://10.0.0.2:5000''"
definition peer2 :: string where "peer2 = ''http://10.0.0.3:5000''"

text \<open>A local store that holds nothing: every call fails.\<close>

definition missing_store :: ociClient where
  "missing_store = \<lparr>Resolve = (\<lambda>_. Inl (Err ''not found'')),
      GetBlob = (\<lambda>_. Inl (Err ''not found'')),
      GetSize = (\<lambda>_. Inl (Err ''not found'')),
      WriteBlob = (\<lambda>_. ([], Some (Err ''not found'')))\<rparr>"

definition router_yielding :: "mirror_chan \<Rightarrow> error option \<Rightarrow> router" where
  "router_yielding ch rerr = \<lparr>router_Resolve = (\<lambda>_ _ _. (ch, rerr))\<rparr>"

definition demo_registry :: "bool \<Rightarrow> router \<Rightarrow> registry" where
  "demo_registry latest rt = \<lparr>ociClient = missing_store, router = rt, resolveRetries = 3,
      resolveLatestTag = latest, localAddr = ''10.0.0.1:5000''\<rparr>"

text \<open>
  What \<open>oci.ParsePathComponents\<close> gives on the two paths of the examples: for a tag the
  reference is \<open>registry/name:tag\<close>, the form of the image names in the test file
  (\<open>ghcr.io/xenitab/spegel:v0.0.8\<close>), with the registry taken from the \<open>ns\<close> query.
\<close>

definition demo_parse :: "string \<Rightarrow> string \<Rightarrow> error + (string \<times> digest \<times> referenceType)" where
  "demo_parse ns p =
     (if p = ''/v2/foo/manifests/latest'' then Inr (ns @ ''/foo:latest'', [], ReferenceTypeManifest)
      else if p = ''/v2/foo/blobs/sha256:abc'' then Inr ([], ''sha256:abc'', ReferenceTypeBlob)
      else Inl (Err ''distribution path could not be parsed''))"

definition demo_world :: "(string \<Rightarrow> peer_response) \<Rightarrow> nat \<Rightarrow> world" where
  "demo_world peers n = \<lparr>parsePathComponents = demo_parse, urlParse = Inr,
      roundTrip = (\<lambda>u _. peers u), deadlineAfter = n, clientWriteErr = None\<rparr>"

definition demo_request :: "string \<Rightarrow> string \<Rightarrow> (string \<rightharpoonup> string list) \<Rightarrow> request" where
  "demo_request p ns h = \<lparr>req_method = ''GET'', url_path = p, url_query = [(''ns'', ns)],
      header = h, host = ''10.0.0.1:5000''\<rparr>"

text \<open>
  The first peer answers 500 with a header line and a body, the second 200 with its own
  header line and body \<open>X\<close>.
\<close>

definition peers_500_then_200 :: "string \<Rightarrow> peer_response" where
  "peers_500_then_200 u =
     (if u = peer1 then Response 500 [''X-From'' \<mapsto> [''P1'']] ''P1''
      else if u = peer2 then Response 200 [''X-From'' \<mapsto> [''P2'']] ''X''
      else TransportError)"

definition peers_all_down :: "string \<Rightarrow> peer_response" where
  "peers_all_down u = TransportError"

text \<open>
  The context in which \<open>registryHandler\<close> calls \<open>handleMirror\<close> for a manifest request:
  nothing written yet, the loop-breaker header already set.
\<close>

definition mirror_context :: gin_context where
  "mirror_context = new_context (demo_request ''/v2/foo/manifests/latest'' ''docker.io'' [MirroredHeaderKey \<mapsto> [''true'']])"

text \<open>A blob request as a peer sends it: marked as mirrored.\<close>

definition blob_request :: request where
  "blob_request = demo_request ''/v2/foo/blobs/sha256:abc'' ''docker.io'' [MirroredHeaderKey \<mapsto> [''true'']]"

section \<open>Walking an image (internal/oci, through its test file)\<close>

record platform =
  architecture :: string
  os :: string
  variant :: string

record descriptor =
  mediaType :: string
  digest :: digest
  desc_size :: int
  platform :: "platform option"

definition mk_descriptor :: "string \<Rightarrow> digest \<Rightarrow> int \<Rightarrow> platform option \<Rightarrow> descriptor" where
  "mk_descriptor mt d n p = \<lparr>mediaType = mt, digest = d, desc_size = n, platform = p\<rparr>"

text \<open>
  A document of the content store, already told apart by its media type or, where that
  is missing, by its structure: an index lists manifests, a manifest has a config and
  layers.
\<close>

datatype document = Index "descriptor list" | Manifest descriptor "descriptor list"

record image =
  img_name :: string
  img_digest :: digest

datatype walk_error = NotFound string | NoMatchingPlatform digest | DepthExceeded digest

type_synonym content_store = "digest \<rightharpoonup> document"
type_synonym image_store = "string \<rightharpoonup> descriptor"

text \<open>
  The platform matcher the host supplies. The tests build it with containerd's
  \<open>platforms.Only\<close>, whose result is a \<open>MatchComparer\<close>: \<open>Match\<close> says whether a
  platform is acceptable, \<open>Less\<close> which of two platforms is to be preferred.
\<close>

record matcher =
  Match :: "platform \<Rightarrow> bool"
  Less :: "platform \<Rightarrow> platform \<Rightarrow> bool"

definition is_attestation :: "descriptor \<Rightarrow> bool" where
  "is_attestation d = (case platform d of None \<Rightarrow> False | Some p \<Rightarrow> architecture p = ''unknown'')"

text \<open>
  A child of an index is accepted when it is no attestation manifest and the matcher
  matches its platform (a child that names no platform is not accepted).
\<close>

definition accepts :: "matcher \<Rightarrow> descriptor \<Rightarrow> bool" where
  "accepts m d = (\<not> is_attestation d \<and> (case platform d of None \<Rightarrow> False | Some p \<Rightarrow> Match m p))"

definition preferred :: "matcher \<Rightarrow> descriptor \<Rightarrow> descriptor \<Rightarrow> bool" where
  "preferred m c b = (case (platform c, platform b) of (Some x, Some y) \<Rightarrow> Less m x y | _ \<Rightarrow> False)"

text \<open>
  The child the matcher prefers among the accepted ones: a later child replaces the
  current one only when the matcher ranks it strictly before, so among equally ranked
  children the first in index order is kept.
\<close>

fun best_of :: "matcher \<Rightarrow> descriptor \<Rightarrow> descriptor list \<Rightarrow> descriptor" where
  "best_of m b [] = b"
| "best_of m b (c # cs) = best_of m (if preferred m c b then c else b) cs"

text \<open>
  Modelled from the spec: the walk of \<open>GetImageDigests\<close> (\<open>WalkImage\<close>), whose source
  file (internal/oci/containerd.go) is not among the sources at hand; only its test file
  is. The spec: the output starts with the root, followed by the descriptors found
  depth-first; a child of an index whose platform architecture is \<open>unknown\<close> is skipped,
  an index with no child that the platform matcher accepts fails with
  \<open>NoMatchingPlatform\<close> naming the index; the children of a manifest (its config, then
  its layers) are appended in document order; the depth of the walk is capped. Where the
  spec has every accepted child entered, the test file decides otherwise: for
  \<open>linux/arm64\<close> the matcher of the test accepts two children of the reference index
  (\<open>arm/v7\<close> and \<open>arm64\<close>, in this order) and the expected list holds the chain of
  \<open>arm64\<close> alone. So the walk enters one child of an index, the one the matcher prefers.
  The walk returns the descriptors, of which \<open>WalkImage\<close> gives the digests.
\<close>

fun walk :: "nat \<Rightarrow> content_store \<Rightarrow> matcher \<Rightarrow> descriptor \<Rightarrow> walk_error + descriptor list" where
  "walk 0 cs m d = Inl (DepthExceeded (digest d))"
| "walk (Suc n) cs m d =
     (case cs (digest d) of
        None \<Rightarrow> Inl (NotFound (digest d))
      | Some (Manifest cfg ls) \<Rightarrow> Inr (d # cfg # ls)
      | Some (Index ms) \<Rightarrow>
          (case filter (accepts m) ms of
             [] \<Rightarrow> Inl (NoMatchingPlatform (digest d))
           | c # sel \<Rightarrow>
               (case walk n cs m (best_of m c sel) of
                  Inl e \<Rightarrow> Inl e
                | Inr ds \<Rightarrow> Inr (d # ds))))"

text \<open>
  Modelled from the spec: \<open>WalkImage\<close>. The root is the descriptor the image store holds
  under the image's name, as the test file has it: its second case names the image
  without media type, passes the digest \<open>e80e...\<close> in the image and expects the list to
  start with the stored target \<open>e2db...\<close>.
\<close>

definition WalkImage :: "nat \<Rightarrow> image_store \<Rightarrow> content_store \<Rightarrow> matcher \<Rightarrow> image \<Rightarrow> walk_error + digest list" where
  "WalkImage depth imgs cs m img =
     (case imgs (img_name img) of
        None \<Rightarrow> Inl (NotFound (img_name img))
      | Some target \<Rightarrow>
          (case walk depth cs m target of Inl e \<Rightarrow> Inl e | Inr ds \<Rightarrow> Inr (map digest ds)))"

text \<open>
  The stores a node holds, and \<open>GetImageDigests\<close> as a call on them: the call only
  reads, so it hands the stores back as it found them.
\<close>

record oci_stores =
  image_store_of :: image_store
  content_store_of :: content_store





text \<open>The content store with every attestation descriptor taken out of every index.\<close>

definition strip_attestations :: "content_store \<Rightarrow> content_store" where
  "strip_attestations cs = (\<lambda>k. case cs k of
       Some (Index ms) \<Rightarrow> Some (Index (filter (\<lambda>d. \<not> is_attestation d) ms))
     | other \<Rightarrow> other)"

text \<open>
  What accounts for a digest in the output of a walk: it is the root's, or that of a child
  of some index that the matcher accepts (which is then no attestation manifest), or that
  of a config or layer of some manifest.
\<close>

definition accounted_for :: "content_store \<Rightarrow> matcher \<Rightarrow> descriptor \<Rightarrow> digest \<Rightarrow> bool" where
  "accounted_for cs m root k =
     (k = digest root
      \<or> (\<exists>i ms c. cs i = Some (Index ms) \<and> c \<in> set ms \<and> accepts m c \<and> digest c = k)
      \<or> (\<exists>j cfg ls. cs j = Some (Manifest cfg ls) \<and> k \<in> set (map digest (cfg # ls))))"

subsection \<open>The matcher of the tests: containerd's platforms.Only\<close>

text \<open>
  \<open>platforms.Normalize\<close>, on the variants: \<open>amd64/v1\<close> is \<open>amd64\<close>, \<open>arm64/v8\<close> is
  \<open>arm64\<close>, \<open>arm\<close> without variant is \<open>arm/v7\<close>. (The alias spellings of operating
  systems and architectures, such as \<open>x86_64\<close> or \<open>aarch64\<close>, are left out: neither the
  tests nor the reference index use them.)
\<close>

definition Normalize :: "platform \<Rightarrow> platform" where
  "Normalize p =
     (if architecture p = ''amd64'' \<and> variant p = ''v1'' then p\<lparr>variant := []\<rparr>
      else if architecture p = ''arm64'' \<and> (variant p = ''v8'' \<or> variant p = ''8'') then p\<lparr>variant := []\<rparr>
      else if architecture p = ''arm'' \<and> (variant p = [] \<or> variant p = ''7'') then p\<lparr>variant := ''v7''\<rparr>
      else p)"

text \<open>\<open>NewMatcher(want).Match\<close>: operating system, architecture and variant agree.\<close>

definition exact_match :: "platform \<Rightarrow> platform \<Rightarrow> bool" where
  "exact_match want p =
     (let a = Normalize want; q = Normalize p
      in os a = os q \<and> architecture a = architecture q \<and> variant a = variant q)"

fun lower_arm :: "string \<Rightarrow> string list" where
  "lower_arm v = (if v = ''v8'' then [''v7'', ''v6'', ''v5'']
                  else if v = ''v7'' then [''v6'', ''v5'']
                  else if v = ''v6'' then [''v5''] else [])"

fun lower_amd64 :: "string \<Rightarrow> string list" where
  "lower_amd64 v = (if v = ''v4'' then [''v3'', ''v2'', ''v1'']
                    else if v = ''v3'' then [''v2'', ''v1'']
                    else if v = ''v2'' then [''v1''] else [])"

text \<open>
  \<open>platformVector\<close>: the platform itself, then the platforms it can also run, best
  first: for \<open>amd64\<close> its lower variants and \<open>386\<close>, for \<open>arm\<close> its lower variants, for
  \<open>arm64\<close> the vector of \<open>arm/v8\<close>.
\<close>

definition platformVector :: "platform \<Rightarrow> platform list" where
  "platformVector p =
     (if architecture p = ''amd64'' then
        p # map (\<lambda>v. p\<lparr>variant := v\<rparr>) (lower_amd64 (variant p)) @ [p\<lparr>architecture := ''386'', variant := []\<rparr>]
      else if architecture p = ''arm'' then
        p # map (\<lambda>v. p\<lparr>variant := v\<rparr>) (lower_arm (variant p))
      else if architecture p = ''arm64'' then
        (let v = (if variant p = [] then ''v8'' else variant p)
         in p # p\<lparr>architecture := ''arm'', variant := v\<rparr>
              # map (\<lambda>x. p\<lparr>architecture := ''arm'', variant := x\<rparr>) (lower_arm v))
      else [p])"

text \<open>
  \<open>Less\<close> of an ordered comparer: the first platform of the vector that matches either
  side decides, and it prefers the side it matches alone.
\<close>

fun ordered_less :: "platform list \<Rightarrow> platform \<Rightarrow> platform \<Rightarrow> bool" where
  "ordered_less [] a b = False"
| "ordered_less (w # ws) a b =
     (if exact_match w a \<and> \<not> exact_match w b then True
      else if exact_match w a \<or> exact_match w b then False
      else ordered_less ws a b)"

definition platforms_Only :: "platform \<Rightarrow> matcher" where
  "platforms_Only p =
     (let vec = platformVector (Normalize p)
      in \<lparr>Match = (\<lambda>q. list_ex (\<lambda>w. exact_match w q) vec), Less = ordered_less vec\<rparr>)"

definition mk_platform :: "string \<Rightarrow> string \<Rightarrow> platform" where
  "mk_platform o_s arch = \<lparr>architecture = arch, os = o_s, variant = []\<rparr>"

definition linux_amd64 :: matcher where "linux_amd64 = platforms_Only (mk_platform ''linux'' ''amd64'')"

definition linux_arm64 :: matcher where "linux_arm64 = platforms_Only (mk_platform ''linux'' ''arm64'')"

definition linux_arm :: matcher where "linux_arm = platforms_Only (mk_platform ''linux'' ''arm'')"

definition darwin_arm64 :: matcher where "darwin_arm64 = platforms_Only (mk_platform ''darwin'' ''arm64'')"

text \<open>A matcher that accepts every platform and prefers none.\<close>

definition any_platform :: matcher where
  "any_platform = \<lparr>Match = (\<lambda>p. True), Less = (\<lambda>a b. False)\<rparr>"

subsection \<open>The reference data of TestGetImageDigests\<close>

definition index_with_media_type_digest :: digest where
  "index_with_media_type_digest = ''sha256:e80e36564e9617f684eb5972bf86dc9e9e761216e0d40ff78ca07741ec70725a''"

definition reference_children :: "descriptor list" where
  "reference_children = [
     mk_descriptor ''application/vnd.oci.image.manifest.v1+json''
       ''sha256:44cb2cf712c060f69df7310e99339c1eb51a085446f1bb6d44469acff35b4355'' 2372 (Some \<lparr>architecture = ''amd64'', os = ''linux'', variant = ''''\<rparr>),
     mk_descriptor ''application/vnd.oci.image.manifest.v1+json''
       ''sha256:0ad7c556c55464fa44d4c41e5236715e015b0266daced62140fb5c6b983c946b'' 2372 (Some \<lparr>architecture = ''arm'', os = ''linux'', variant = ''v7''\<rparr>),
     mk_descriptor ''application/vnd.oci.image.manifest.v1+json''
       ''sha256:dce623533c59af554b85f859e91fc1cbb7f574e873c82f36b9ea05a09feb0b53'' 2372 (Some \<lparr>architecture = ''arm64'', os = ''linux'', variant = ''''\<rparr>),
     mk_descriptor ''application/vnd.oci.image.manifest.v1+json''
       ''sha256:73af5483f4d2d636275dcef14d5443ff96d7347a0720ca5a73a32c73855c4aac'' 566 (Some \<lparr>architecture = ''unknown'', os = ''unknown'', variant = ''''\<rparr>),
     mk_descriptor ''application/vnd.oci.image.manifest.v1+json''
       ''sha256:36e11bf470af256febbdfad9d803e60b7290b0268218952991b392be9e8153bd'' 566 (Some \<lparr>architecture = ''unknown'', os = ''unknown'', variant = ''''\<rparr>),
     mk_descriptor ''application/vnd.oci.image.manifest.v1+json''
       ''sha256:42d1c43f2285e8e3d39f80b8eed8e4c5c28b8011c942b5413ecc6a0050600609'' 566 (Some \<lparr>architecture = ''unknown'', os = ''unknown'', variant = ''''\<rparr>)]"

definition index_without_media_type_digest :: digest where
  "index_without_media_type_digest = ''sha256:e2db0e6787216c5abfc42ea8ec82812e41782f3bc6e3b5221d5ef9c800e6c507''"

definition manifest_amd64_digest :: digest where
  "manifest_amd64_digest = ''sha256:44cb2cf712c060f69df7310e99339c1eb51a085446f1bb6d44469acff35b4355''"

definition manifest_amd64 :: document where
  "manifest_amd64 = Manifest
     (mk_descriptor ''application/vnd.oci.image.config.v1+json''
        ''sha256:d715ba0d85ee7d37da627d0679652680ed2cb23dde6120f25143a0b8079ee47e'' 2842 None)
     [
      mk_descriptor ''application/vnd.oci.image.layer.v1.tar+gzip''
        ''sha256:a7ca0d9ba68fdce7e15bc0952d3e898e970548ca24d57698725836c039086639'' 103732 None,
      mk_descriptor ''application/vnd.oci.image.layer.v1.tar+gzip''
        ''sha256:fe5ca62666f04366c8e7f605aa82997d71320183e99962fa76b3209fdfbb8b58'' 21202 None,
      mk_descriptor ''application/vnd.oci.image.layer.v1.tar+gzip''
        ''sha256:b02a7525f878e61fc1ef8a7405a2cc17f866e8de222c1c98fd6681aff6e509db'' 716491 None,
      mk_descriptor ''application/vnd.oci.image.layer.v1.tar+gzip''
        ''sha256:fcb6f6d2c9986d9cd6a2ea3cc2936e5fc613e09f1af9042329011e43057f3265'' 317 None,
      mk_descriptor ''application/vnd.oci.image.layer.v1.tar+gzip''
        ''sha256:e8c73c638ae9ec5ad70c49df7e484040d889cca6b4a9af056579c3d058ea93f0'' 198 None,
      mk_descriptor ''application/vnd.oci.image.layer.v1.tar+gzip''
        ''sha256:1e3d9b7d145208fa8fa3ee1c9612d0adaac7255f1bbc9ddea7e461e0b317805c'' 113 None,
      mk_descriptor ''application/vnd.oci.image.layer.v1.tar+gzip''
        ''sha256:4aa0ea1413d37a58615488592a0b827ea4b2e48fa5a77cf707d0e35f025e613f'' 385 None,
      mk_descriptor ''application/vnd.oci.image.layer.v1.tar+gzip''
        ''sha256:7c881f9ab25e0d86562a123b5fb56aebf8aa0ddd7d48ef602faf8d1e7cf43d8c'' 355 None,
      mk_descriptor ''application/vnd.oci.image.layer.v1.tar+gzip''
        ''sha256:5627a970d25e752d971a501ec7e35d0d6fdcd4a3ce9e958715a686853024794a'' 130562 None,
      mk_descriptor ''application/vnd.oci.image.layer.v1.tar+gzip''
        ''sha256:76f3a495ffdc00c612747ba0c59fc56d0a2610d2785e80e9edddbf214c2709ef'' 36529876 None,
      mk_descriptor ''application/vnd.oci.image.layer.v1.tar+gzip''
        ''sha256:4f4fb700ef54461cfa02571ae0db9a0dc1e0cdb5577484a6d75e68dc38e8acc1'' 32 None]"

definition manifest_arm64_digest :: digest where
  "manifest_arm64_digest = ''sha256:dce623533c59af554b85f859e91fc1cbb7f574e873c82f36b9ea05a09feb0b53''"

definition manifest_arm64 :: document where
  "manifest_arm64 = Manifest
     (mk_descriptor ''application/vnd.oci.image.config.v1+json''
        ''sha256:c73129c9fb699b620aac2df472196ed41797fd0f5a90e1942bfbf19849c4a1c9'' 2842 None)
     [
      mk_descriptor ''application/vnd.oci.image.layer.v1.tar+gzip''
        ''sha256:0b41f743fd4d78cb50ba86dd3b951b51458744109e1f5063a76bc5a792c3d8e7'' 103732 None,
      mk_descriptor ''application/vnd.oci.image.layer.v1.tar+gzip''
        ''sha256:fe5ca62666f04366c8e7f605aa82997d71320183e99962fa76b3209fdfbb8b58'' 21202 None,
      mk_descriptor ''application/vnd.oci.image.layer.v1.tar+gzip''
        ''sha256:b02a7525f878e61fc1ef8a7405a2cc17f866e8de222c1c98fd6681aff6e509db'' 716491 None,
      mk_descriptor ''application/vnd.oci.image.layer.v1.tar+gzip''
        ''sha256:fcb6f6d2c9986d9cd6a2ea3cc2936e5fc613e09f1af9042329011e43057f3265'' 317 None,
      mk_descriptor ''application/vnd.oci.image.layer.v1.tar+gzip''
        ''sha256:e8c73c638ae9ec5ad70c49df7e484040d889cca6b4a9af056579c3d058ea93f0'' 198 None,
      mk_descriptor ''application/vnd.oci.image.layer.v1.tar+gzip''
        ''sha256:1e3d9b7d145208fa8fa3ee1c9612d0adaac7255f1bbc9ddea7e461e0b317805c'' 113 None,
      mk_descriptor ''application/vnd.oci.image.layer.v1.tar+gzip''
        ''sha256:4aa0ea1413d37a58615488592a0b827ea4b2e48fa5a77cf707d0e35f025e613f'' 385 None,
      mk_descriptor ''application/vnd.oci.image.layer.v1.tar+gzip''
        ''sha256:7c881f9ab25e0d86562a123b5fb56aebf8aa0ddd7d48ef602faf8d1e7cf43d8c'' 355 None,
      mk_descriptor ''application/vnd.oci.image.layer.v1.tar+gzip''
        ''sha256:5627a970d25e752d971a501ec7e35d0d6fdcd4a3ce9e958715a686853024794a'' 130562 None,
      mk_descriptor ''application/vnd.oci.image.layer.v1.tar+gzip''
        ''sha256:0dc769edeab7d9f622b9703579f6c89298a4cf45a84af1908e26fffca55341e1'' 34168923 None,
      mk_descriptor ''application/vnd.oci.image.layer.v1.tar+gzip''
        ''sha256:4f4fb700ef54461cfa02571ae0db9a0dc1e0cdb5577484a6d75e68dc38e8acc1'' 32 None]"

definition manifest_arm_digest :: digest where
  "manifest_arm_digest = ''sha256:0ad7c556c55464fa44d4c41e5236715e015b0266daced62140fb5c6b983c946b''"

definition manifest_arm :: document where
  "manifest_arm = Manifest
     (mk_descriptor ''application/vnd.oci.image.config.v1+json''
        ''sha256:1079836371d57a148a0afa5abfe00bd91825c869fcc6574a418f4371d53cab4c'' 2855 None)
     [
      mk_descriptor ''application/vnd.oci.image.layer.v1.tar+gzip''
        ''sha256:b437b30b8b4cc4e02865517b5ca9b66501752012a028e605da1c98beb0ed9f50'' 103732 None,
      mk_descriptor ''application/vnd.oci.image.layer.v1.tar+gzip''
        ''sha256:fe5ca62666f04366c8e7f605aa82997d71320183e99962fa76b3209fdfbb8b58'' 21202 None,
      mk_descriptor ''application/vnd.oci.image.layer.v1.tar+gzip''
        ''sha256:b02a7525f878e61fc1ef8a7405a2cc17f866e8de222c1c98fd6681aff6e509db'' 716491 None,
      mk_descriptor ''application/vnd.oci.image.layer.v1.tar+gzip''
        ''sha256:fcb6f6d2c9986d9cd6a2ea3cc2936e5fc613e09f1af9042329011e43057f3265'' 317 None,
      mk_descriptor ''application/vnd.oci.image.layer.v1.tar+gzip''
        ''sha256:e8c73c638ae9ec5ad70c49df7e484040d889cca6b4a9af056579c3d058ea93f0'' 198 None,
      mk_descriptor ''application/vnd.oci.image.layer.v1.tar+gzip''
        ''sha256:1e3d9b7d145208fa8fa3ee1c9612d0adaac7255f1bbc9ddea7e461e0b317805c'' 113 None,
      mk_descriptor ''application/vnd.oci.image.layer.v1.tar+gzip''
        ''sha256:4aa0ea1413d37a58615488592a0b827ea4b2e48fa5a77cf707d0e35f025e613f'' 385 None,
      mk_descriptor ''application/vnd.oci.image.layer.v1.tar+gzip''
        ''sha256:7c881f9ab25e0d86562a123b5fb56aebf8aa0ddd7d48ef602faf8d1e7cf43d8c'' 355 None,
      mk_descriptor ''application/vnd.oci.image.layer.v1.tar+gzip''
        ''sha256:5627a970d25e752d971a501ec7e35d0d6fdcd4a3ce9e958715a686853024794a'' 130562 None,
      mk_descriptor ''application/vnd.oci.image.layer.v1.tar+gzip''
        ''sha256:01d28554416aa05390e2827a653a1289a2a549e46cc78d65915a75377c6008ba'' 34318536 None,
      mk_descriptor ''application/vnd.oci.image.layer.v1.tar+gzip''
        ''sha256:4f4fb700ef54461cfa02571ae0db9a0dc1e0cdb5577484a6d75e68dc38e8acc1'' 32 None]"

definition reference_content :: content_store where
  "reference_content = map_of [
     (index_with_media_type_digest, Index reference_children),
     (index_without_media_type_digest, Index reference_children),
     (manifest_amd64_digest, manifest_amd64),
     (manifest_arm64_digest, manifest_arm64),
     (manifest_arm_digest, manifest_arm)]"

definition reference_root :: descriptor where
  "reference_root = mk_descriptor ''application/vnd.oci.image.index.v1+json''
     index_with_media_type_digest 0 None"

definition reference_images :: image_store where
  "reference_images = map_of [
     (''ghcr.io/xenitab/spegel:v0.0.8-with-media-type'', reference_root),
     (''ghcr.io/xenitab/spegel:v0.0.8-without-media-type'',
        mk_descriptor ''application/vnd.oci.image.index.v1+json'' index_without_media_type_digest 0 None)]"

definition reference_image :: image where
  "reference_image = \<lparr>img_name = ''ghcr.io/xenitab/spegel:v0.0.8-with-media-type'',
     img_digest = index_with_media_type_digest\<rparr>"

definition expected_amd64_keys :: "digest list" where
  "expected_amd64_keys = [
     ''sha256:e80e36564e9617f684eb5972bf86dc9e9e761216e0d40ff78ca07741ec70725a'',
     ''sha256:44cb2cf712c060f69df7310e99339c1eb51a085446f1bb6d44469acff35b4355'',
     ''sha256:d715ba0d85ee7d37da627d0679652680ed2cb23dde6120f25143a0b8079ee47e'',
     ''sha256:a7ca0d9ba68fdce7e15bc0952d3e898e970548ca24d57698725836c039086639'',
     ''sha256:fe5ca62666f04366c8e7f605aa82997d71320183e99962fa76b3209fdfbb8b58'',
     ''sha256:b02a7525f878e61fc1ef8a7405a2cc17f866e8de222c1c98fd6681aff6e509db'',
     ''sha256:fcb6f6d2c9986d9cd6a2ea3cc2936e5fc613e09f1af9042329011e43057f3265'',
     ''sha256:e8c73c638ae9ec5ad70c49df7e484040d889cca6b4a9af056579c3d058ea93f0'',
     ''sha256:1e3d9b7d145208fa8fa3ee1c9612d0adaac7255f1bbc9ddea7e461e0b317805c'',
     ''sha256:4aa0ea1413d37a58615488592a0b827ea4b2e48fa5a77cf707d0e35f025e613f'',
     ''sha256:7c881f9ab25e0d86562a123b5fb56aebf8aa0ddd7d48ef602faf8d1e7cf43d8c'',
     ''sha256:5627a970d25e752d971a501ec7e35d0d6fdcd4a3ce9e958715a686853024794a'',
     ''sha256:76f3a495ffdc00c612747ba0c59fc56d0a2610d2785e80e9edddbf214c2709ef'',
     ''sha256:4f4fb700ef54461cfa02571ae0db9a0dc1e0cdb5577484a6d75e68dc38e8acc1'']"


definition expected_arm64_keys :: "digest list" where
  "expected_arm64_keys = [
     ''sha256:e80e36564e9617f684eb5972bf86dc9e9e761216e0d40ff78ca07741ec70725a'',
     ''sha256:dce623533c59af554b85f859e91fc1cbb7f574e873c82f36b9ea05a09feb0b53'',
     ''sha256:c73129c9fb699b620aac2df472196ed41797fd0f5a90e1942bfbf19849c4a1c9'',
     ''sha256:0b41f743fd4d78cb50ba86dd3b951b51458744109e1f5063a76bc5a792c3d8e7'',
     ''sha256:fe5ca62666f04366c8e7f605aa82997d71320183e99962fa76b3209fdfbb8b58'',
     ''sha256:b02a7525f878e61fc1ef8a7405a2cc17f866e8de222c1c98fd6681aff6e509db'',
     ''sha256:fcb6f6d2c9986d9cd6a2ea3cc2936e5fc613e09f1af9042329011e43057f3265'',
     ''sha256:e8c73c638ae9ec5ad70c49df7e484040d889cca6b4a9af056579c3d058ea93f0'',
     ''sha256:1e3d9b7d145208fa8fa3ee1c9612d0adaac7255f1bbc9ddea7e461e0b317805c'',
     ''sha256:4aa0ea1413d37a58615488592a0b827ea4b2e48fa5a77cf707d0e35f025e613f'',
     ''sha256:7c881f9ab25e0d86562a123b5fb56aebf8aa0ddd7d48ef602faf8d1e7cf43d8c'',
     ''sha256:5627a970d25e752d971a501ec7e35d0d6fdcd4a3ce9e958715a686853024794a'',
     ''sha256:0dc769edeab7d9f622b9703579f6c89298a4cf45a84af1908e26fffca55341e1'',
     ''sha256:4f4fb700ef54461cfa02571ae0db9a0dc1e0cdb5577484a6d75e68dc38e8acc1'']"

definition expected_arm_keys :: "digest list" where
  "expected_arm_keys = [
     ''sha256:e80e36564e9617f684eb5972bf86dc9e9e761216e0d40ff78ca07741ec70725a'',
     ''sha256:0ad7c556c55464fa44d4c41e5236715e015b0266daced62140fb5c6b983c946b'',
     ''sha256:1079836371d57a148a0afa5abfe00bd91825c869fcc6574a418f4371d53cab4c'',
     ''sha256:b437b30b8b4cc4e02865517b5ca9b66501752012a028e605da1c98beb0ed9f50'',
     ''sha256:fe5ca62666f04366c8e7f605aa82997d71320183e99962fa76b3209fdfbb8b58'',
     ''sha256:b02a7525f878e61fc1ef8a7405a2cc17f866e8de222c1c98fd6681aff6e509db'',
     ''sha256:fcb6f6d2c9986d9cd6a2ea3cc2936e5fc613e09f1af9042329011e43057f3265'',
     ''sha256:e8c73c638ae9ec5ad70c49df7e484040d889cca6b4a9af056579c3d058ea93f0'',
     ''sha256:1e3d9b7d145208fa8fa3ee1c9612d0adaac7255f1bbc9ddea7e461e0b317805c'',
     ''sha256:4aa0ea1413d37a58615488592a0b827ea4b2e48fa5a77cf707d0e35f025e613f'',
     ''sha256:7c881f9ab25e0d86562a123b5fb56aebf8aa0ddd7d48ef602faf8d1e7cf43d8c'',
     ''sha256:5627a970d25e752d971a501ec7e35d0d6fdcd4a3ce9e958715a686853024794a'',
     ''sha256:01d28554416aa05390e2827a653a1289a2a549e46cc78d65915a75377c6008ba'',
     ''sha256:4f4fb700ef54461cfa02571ae0db9a0dc1e0cdb5577484a6d75e68dc38e8acc1'']"

text \<open>The second case of the test: the image stored without media type.\<close>

definition image_without_media_type :: image where
  "image_without_media_type = \<lparr>img_name = ''ghcr.io/xenitab/spegel:v0.0.8-without-media-type'',
     img_digest = index_with_media_type_digest\<rparr>"

definition reference_stores :: oci_stores where
  "reference_stores = \<lparr>image_store_of = reference_images, content_store_of = reference_content\<rparr>"






text \<open>The digests of the attestation manifests the reference index lists.\<close>

definition attestation_digests :: "digest list" where
  "attestation_digests = map digest (filter is_attestation reference_children)"

text \<open>
  An index that lists one manifest twice: once for \<open>linux/amd64\<close>, once with platform
  architecture \<open>unknown\<close>.
\<close>

definition twice_listed_children :: "descriptor list" where
  "twice_listed_children = [
     mk_descriptor ''application/vnd.oci.image.manifest.v1+json'' ''sha256:aaaa'' 100
       (Some \<lparr>architecture = ''amd64'', os = ''linux'', variant = []\<rparr>),
     mk_descriptor ''application/vnd.oci.image.manifest.v1+json'' ''sha256:aaaa'' 100
       (Some \<lparr>architecture = ''unknown'', os = ''unknown'', variant = []\<rparr>)]"

definition twice_listed_content :: content_store where
  "twice_listed_content = map_of [
     (''sha256:0000'', Index twice_listed_children),
     (''sha256:aaaa'', Manifest (mk_descriptor ''application/vnd.oci.image.config.v1+json'' ''sha256:cccc'' 10 None) [])]"

definition twice_listed_images :: image_store where
  "twice_listed_images = map_of [
     (''example.com/app:v1'', mk_descriptor ''application/vnd.oci.image.index.v1+json'' ''sha256:0000'' 0 None)]"

definition twice_listed_image :: image where
  "twice_listed_image = \<lparr>img_name = ''example.com/app:v1'', img_digest = ''sha256:0000''\<rparr>"

section \<open>Properties of the registry front-end and the mirror proxy\<close>

subsection \<open>How gin's operations act on the fields of the context\<close>

lemmas gin_defs = Status_def WriteHeaderNow_def AbortWithStatus_def AbortWithError_def
  SetHeader_def Write_def log_effect_def

lemma trace_gin [simp]:
  "trace (Status code c) = trace c"
  "trace (WriteHeaderNow c) = trace c"
  "trace (AbortWithStatus code c) = trace c"
  "trace (AbortWithError code e c) = trace c"
  "trace (SetHeader k v c) = trace c"
  "trace (fst (Write ce b c)) = trace c"
  "trace (log_effect ef c) = trace c @ [ef]"
  by (simp_all add: gin_defs Let_def split: option.splits)

lemma req_gin [simp]:
  "req (Status code c) = req c"
  "req (WriteHeaderNow c) = req c"
  "req (AbortWithStatus code c) = req c"
  "req (AbortWithError code e c) = req c"
  "req (SetHeader k v c) = req c"
  "req (fst (Write ce b c)) = req c"
  "req (log_effect ef c) = req c"
  by (simp_all add: gin_defs Let_def split: option.splits)

lemma body_gin [simp]:
  "body (Status code c) = body c"
  "body (WriteHeaderNow c) = body c"
  "body (AbortWithStatus code c) = body c"
  "body (AbortWithError code e c) = body c"
  "body (SetHeader k v c) = body c"
  "body (log_effect ef c) = body c"
  by (simp_all add: gin_defs Let_def split: option.splits)

lemma new_context_simps [simp]:
  "req (new_context rq) = rq"
  "status (new_context rq) = 200"
  "written (new_context rq) = False"
  "body (new_context rq) = []"
  "errors (new_context rq) = []"
  "trace (new_context rq) = []"
  by (simp_all add: new_context_def)

lemma mirror_loop_numeral [simp]:
  "mirror_loop w key (numeral k) ch c = mirror_loop w key (Suc (pred_numeral k)) ch c"
  by (simp add: numeral_eq_Suc)

lemma trace_handleManifest:
  "trace (handleManifest r w c d) = trace c @ [StoreGetBlob d]"
  by (auto simp add: handleManifest_def Let_def Write_def WriteHeaderNow_def
      split: sum.splits prod.splits option.splits)

lemma trace_handleBlob:
  "e \<in> set (trace (handleBlob r w c d)) \<Longrightarrow> e \<in> set (trace c) \<or> is_store_call e"
  by (auto simp add: handleBlob_def Let_def split: sum.splits prod.splits option.splits if_splits)

lemma trace_serve_local:
  "e \<in> set (trace (serve_local r w c ref dgst rt)) \<Longrightarrow> e \<in> set (trace c) \<or> is_store_call e"
  by (auto simp add: serve_local_def trace_handleManifest split: sum.splits prod.splits referenceType.splits if_splits
      dest!: trace_handleBlob)

lemmas demo_defs = demo_registry_def demo_world_def demo_request_def demo_parse_def
  router_yielding_def missing_store_def peer1_def peer2_def peers_500_then_200_def peers_all_down_def

lemmas handler_defs = registryHandler_def serve_local_def handleMirror_def handleManifest_def
  handleBlob_def latest_gate_def isExternalRequest_def proxy_ServeHTTP_def on_deadline_def
  Query_def Header_Get_def Header_Set_def MirroredHeaderKey_def copyHeader_def
  could_not_resolve_def resolution_exhausted_def new_context_def

lemma clean_blob_path: "path_Clean ''/v2/foo/blobs/sha256:abc'' \<noteq> ''/v2''"
  by (simp add: path_Clean_def clean_step_def)

lemma clean_manifest_path: "path_Clean ''/v2/foo/manifests/latest'' \<noteq> ''/v2''"
  by (simp add: path_Clean_def clean_step_def)

subsection \<open>The loop breaker\<close>

text \<open>
  C1 (as amended). A request whose \<open>X-Spegel-Mirrored\<close> header reads exactly \<open>true\<close> (the
  first value of the header, which is what \<open>Header.Get\<close> compares) is never forwarded:
  whatever the registry, the router, the peers and the deadline, the handler makes no
  call on the router and no proxy attempt; every call it makes is a call on the local
  OCI store.
\<close>

theorem mirrored_request_stays_local:
  assumes "Header_Get (header rq) MirroredHeaderKey = ''true''"
  shows "\<forall>e \<in> set (trace (registryHandler r w (new_context rq))). is_store_call e"
proof
  fix e assume e: "e \<in> set (trace (registryHandler r w (new_context rq)))"
  from e assms show "is_store_call e"
    by (auto simp add: registryHandler_def split: if_splits sum.splits prod.splits dest!: trace_serve_local)
qed

theorem mirrored_request_stays_local_witness:
  "Header_Get (header (demo_request ''/v2/foo/blobs/sha256:abc'' ''docker.io'' [MirroredHeaderKey \<mapsto> [''true'']])) MirroredHeaderKey = ''true''
   \<and> list_all is_store_call (trace (registryHandler (demo_registry True (router_yielding (Chan [peer1] True) None))
          (demo_world peers_500_then_200 5)
          (new_context (demo_request ''/v2/foo/blobs/sha256:abc'' ''docker.io'' [MirroredHeaderKey \<mapsto> [''true'']]))))
   \<and> trace (registryHandler (demo_registry True (router_yielding (Chan [peer1] True) None))
          (demo_world peers_500_then_200 5)
          (new_context (demo_request ''/v2/foo/blobs/sha256:abc'' ''docker.io'' [MirroredHeaderKey \<mapsto> [''true'']]))) = [StoreGetSize ''sha256:abc'']"
proof -
  have h: "Header_Get (header (demo_request ''/v2/foo/blobs/sha256:abc'' ''docker.io'' [MirroredHeaderKey \<mapsto> [''true'']])) MirroredHeaderKey = ''true''"
    by code_simp
  have t: "trace (registryHandler (demo_registry True (router_yielding (Chan [peer1] True) None))
          (demo_world peers_500_then_200 5)
          (new_context (demo_request ''/v2/foo/blobs/sha256:abc'' ''docker.io'' [MirroredHeaderKey \<mapsto> [''true'']]))) = [StoreGetSize ''sha256:abc'']"
    by code_simp
  have a: "list_all is_store_call (trace (registryHandler (demo_registry True (router_yielding (Chan [peer1] True) None))
          (demo_world peers_500_then_200 5)
          (new_context (demo_request ''/v2/foo/blobs/sha256:abc'' ''docker.io'' [MirroredHeaderKey \<mapsto> [''true'']]))))"
    unfolding list_all_iff by (rule mirrored_request_stays_local [OF h])
  show ?thesis by (intro conjI h a t)
qed

text \<open>
  The header's presence alone does not keep a request local: a request that carries
  \<open>X-Spegel-Mirrored: false\<close> is resolved through the router and proxied to both peers.
\<close>

theorem header_presence_counterexample:
  "header (demo_request ''/v2/foo/manifests/latest'' ''docker.io'' [MirroredHeaderKey \<mapsto> [''false'']]) MirroredHeaderKey \<noteq> None
   \<and> trace (registryHandler (demo_registry True (router_yielding (Chan [peer1, peer2] True) None))
          (demo_world peers_500_then_200 5)
          (new_context (demo_request ''/v2/foo/manifests/latest'' ''docker.io'' [MirroredHeaderKey \<mapsto> [''false'']])))
      = [RouterResolve ''docker.io/foo:latest'' False 3, ProxyAttempt peer1, ProxyAttempt peer2]"
  by code_simp

subsection \<open>The mirror proxy: failover\<close>

lemma attempts_append [simp]: "attempts (xs @ ys) = attempts xs @ attempts ys"
  by (induction xs rule: attempts.induct) simp_all

lemma proxy_fail:
  "\<not> peer_ok w (req c) u \<Longrightarrow> proxy_ServeHTTP w u c = (False, log_effect (ProxyAttempt u) c)"
  by (simp add: proxy_ServeHTTP_def peer_ok_def Let_def split: peer_response.splits)

lemma proxy_ok:
  "peer_ok w (req c) u \<Longrightarrow> \<exists>c'. proxy_ServeHTTP w u c = (True, c') \<and> req c' = req c
      \<and> trace c' = trace c @ [ProxyAttempt u]
      \<and> body c' = body c @ (if clientWriteErr w = None then peer_body w (req c) u else [])"
  by (auto simp add: proxy_ServeHTTP_def peer_ok_def peer_body_def Let_def Write_def
      split: peer_response.splits option.splits)

lemma on_deadline_simps [simp]:
  "trace (on_deadline key c) = trace c @ [ResolveDeadline]"
  "body (on_deadline key c) = body c"
  by (simp_all add: on_deadline_def)

lemma mirror_loop_attempts:
  "\<forall>m \<in> set ms. urlParse w m = Inr m \<Longrightarrow>
   attempts (trace (mirror_loop w key n (Chan ms cl) c)) =
     attempts (trace c) @ upto_first_success (peer_ok w (req c)) (take n ms)"
proof (induction ms arbitrary: n c)
  case Nil
  then show ?case by (cases n) simp_all
next
  case (Cons m ms)
  show ?case
  proof (cases n)
    case 0
    then show ?thesis by simp
  next
    case (Suc k)
    show ?thesis
    proof (cases "peer_ok w (req c) m")
      case True
      with proxy_ok[OF True] Cons.prems Suc show ?thesis by auto
    next
      case False
      with proxy_fail[OF False] Cons.prems Suc Cons.IH[of k "log_effect (ProxyAttempt m) c"]
      show ?thesis by simp
    qed
  qed
qed

lemma mirror_loop_body:
  "\<forall>m \<in> set ms. urlParse w m = Inr m \<Longrightarrow>
   body (mirror_loop w key n (Chan ms cl) c) = body c @ forwarded_bytes w (req c) (take n ms)"
proof (induction ms arbitrary: n c)
  case Nil
  then show ?case by (cases n) (simp_all add: forwarded_bytes_def)
next
  case (Cons m ms)
  show ?case
  proof (cases n)
    case 0
    then show ?thesis by (simp add: forwarded_bytes_def)
  next
    case (Suc k)
    show ?thesis
    proof (cases "peer_ok w (req c) m")
      case True
      with proxy_ok[OF True] Cons.prems Suc show ?thesis by (auto simp: forwarded_bytes_def)
    next
      case False
      with proxy_fail[OF False] Cons.prems Suc Cons.IH[of k "log_effect (ProxyAttempt m) c"]
      show ?thesis by (simp add: forwarded_bytes_def)
    qed
  qed
qed

lemma client_view_log [simp]: "client_view (log_effect e c) = client_view c"
  by (simp add: client_view_def log_effect_def)

lemma client_view_handler_key [simp]: "client_view (c\<lparr>handler_key := k\<rparr>) = client_view c"
  by (simp add: client_view_def)

lemma client_view_cong:
  assumes "client_view c1 = client_view c2"
  shows "client_view (AbortWithError code e c1) = client_view (AbortWithError code e c2)"
    and "client_view (on_deadline key c1) = client_view (on_deadline key c2)"
    and "client_view (respond_200 hdr b ce c1) = client_view (respond_200 hdr b ce c2)"
  using assms
  by (auto simp add: client_view_def on_deadline_def respond_200_def gin_defs Let_def)

lemma client_view_gave_up:
  "client_view c1 = client_view c2 \<Longrightarrow> client_view (gave_up key n ch c1) = client_view (gave_up key n ch c2)"
  by (auto simp add: gave_up_def intro: client_view_cong)

lemma proxy_ok_view:
  "peer_ok w (req c) u \<Longrightarrow>
   client_view (snd (proxy_ServeHTTP w u c)) =
     client_view (respond_200 (peer_header w (req c) u) (peer_body w (req c) u) (clientWriteErr w) c)
   \<and> fst (proxy_ServeHTTP w u c)"
  by (auto simp add: proxy_ServeHTTP_def peer_ok_def peer_body_def peer_header_def respond_200_def
      client_view_def Let_def gin_defs split: peer_response.splits option.splits)

text \<open>
  What the client gets of the whole loop: the handler's own answer when no candidate
  succeeds, and otherwise the response of the first successful candidate, on the context
  as it was before the loop. No failed candidate enters it.
\<close>

lemma mirror_loop_view:
  "\<forall>m \<in> set ms. urlParse w m = Inr m \<Longrightarrow>
   client_view (mirror_loop w key n (Chan ms cl) c) =
     client_view (case List.find (peer_ok w (req c)) (take n ms) of
        None \<Rightarrow> gave_up key n (Chan ms cl) c
      | Some u \<Rightarrow> respond_200 (peer_header w (req c) u) (peer_body w (req c) u) (clientWriteErr w) c)"
proof (induction ms arbitrary: n c)
  case Nil
  then show ?case by (cases n; cases cl) (simp_all add: gave_up_def)
next
  case (Cons m ms)
  show ?case
  proof (cases n)
    case 0
    then show ?thesis by (cases cl) (simp_all add: gave_up_def)
  next
    case (Suc k)
    from Cons.prems have p: "urlParse w m = Inr m" and rest: "\<forall>x \<in> set ms. urlParse w x = Inr x"
      by simp_all
    show ?thesis
    proof (cases "peer_ok w (req c) m")
      case True
      from proxy_ok_view[OF True] p Suc True show ?thesis
        by (simp add: split_beta)
    next
      case False
      have g: "gave_up key (Suc k) (Chan (m # ms) cl) c = gave_up key k (Chan ms cl) c"
        by (cases cl) (simp_all add: gave_up_def)
      have "client_view (mirror_loop w key n (Chan (m # ms) cl) c)
          = client_view (mirror_loop w key k (Chan ms cl) (log_effect (ProxyAttempt m) c))"
        using proxy_fail[OF False] p Suc by simp
      also have "\<dots> = client_view (case List.find (peer_ok w (req c)) (take k ms) of
            None \<Rightarrow> gave_up key k (Chan ms cl) (log_effect (ProxyAttempt m) c)
          | Some u \<Rightarrow> respond_200 (peer_header w (req c) u) (peer_body w (req c) u) (clientWriteErr w)
                        (log_effect (ProxyAttempt m) c))"
        using Cons.IH[OF rest, of k "log_effect (ProxyAttempt m) c"] by (simp split: option.splits)
      also have "\<dots> = client_view (case List.find (peer_ok w (req c)) (take k ms) of
            None \<Rightarrow> gave_up key k (Chan ms cl) c
          | Some u \<Rightarrow> respond_200 (peer_header w (req c) u) (peer_body w (req c) u) (clientWriteErr w) c)"
      proof (cases "List.find (peer_ok w (req c)) (take k ms)")
        case None
        then show ?thesis
          using client_view_gave_up[OF client_view_log, of key k "Chan ms cl" "ProxyAttempt m" c] by simp
      next
        case (Some u)
        then show ?thesis
          using client_view_cong(3)[OF client_view_log, of "peer_header w (req c) u" "peer_body w (req c) u"
              "clientWriteErr w" "ProxyAttempt m" c] by simp
      qed
      finally have main: "client_view (mirror_loop w key n (Chan (m # ms) cl) c)
          = client_view (case List.find (peer_ok w (req c)) (take k ms) of
            None \<Rightarrow> gave_up key k (Chan ms cl) c
          | Some u \<Rightarrow> respond_200 (peer_header w (req c) u) (peer_body w (req c) u) (clientWriteErr w) c)" .
      have rhs: "(case List.find (peer_ok w (req c)) (take n (m # ms)) of
            None \<Rightarrow> gave_up key n (Chan (m # ms) cl) c
          | Some u \<Rightarrow> respond_200 (peer_header w (req c) u) (peer_body w (req c) u) (clientWriteErr w) c)
        = (case List.find (peer_ok w (req c)) (take k ms) of
            None \<Rightarrow> gave_up key k (Chan ms cl) c
          | Some u \<Rightarrow> respond_200 (peer_header w (req c) u) (peer_body w (req c) u) (clientWriteErr w) c)"
        using False Suc g by (simp split: option.splits)
      show ?thesis by (simp only: rhs main)
    qed
  qed
qed

text \<open>
  C2. In \<open>handleMirror\<close>, when every candidate on the channel is a well-formed URL: the
  peers the request is proxied to are the candidates received before the deadline, in
  order, up to and including the first one that answers 200 (so a candidate that answers
  another status or fails at the transport is followed by the next one, and none is tried
  after a success); the bytes of the body are those of the first candidate that answers
  200 and nothing from any other; and everything the client gets (status, committed
  header, header lines, body) is what that one 200 response puts on the context as it was
  when \<open>router.Resolve\<close> returned, or, when no candidate answers 200, the handler's own
  answer on that context: no status, header line or byte of a failed candidate is in it.
\<close>

theorem failover_forwards_only_first_success:
  assumes "router_Resolve (router r) key (isExternalRequest r c) (resolveRetries r) = (Chan ms closed, rerr)"
      and "\<forall>m \<in> set ms. urlParse w m = Inr m"
  shows "attempts (trace (handleMirror r w c key)) =
           attempts (trace c) @ upto_first_success (peer_ok w (req c)) (take (deadlineAfter w) ms)
       \<and> body (handleMirror r w c key) = body c @ forwarded_bytes w (req c) (take (deadlineAfter w) ms)
       \<and> client_view (handleMirror r w c key) =
           client_view (case List.find (peer_ok w (req c)) (take (deadlineAfter w) ms) of
              None \<Rightarrow> gave_up key (deadlineAfter w) (Chan ms closed) (after_resolve rerr c)
            | Some u \<Rightarrow> respond_200 (peer_header w (req c) u) (peer_body w (req c) u)
                          (clientWriteErr w) (after_resolve rerr c))"
proof (intro conjI)
  let ?c1 = "log_effect (RouterResolve key (isExternalRequest r c) (resolveRetries r)) (c\<lparr>handler_key := Some ''mirror''\<rparr>)"
  let ?c2 = "after_resolve rerr ?c1"
  have hm: "handleMirror r w c key = mirror_loop w key (deadlineAfter w) (Chan ms closed) ?c2"
    using assms(1)
    by (simp add: handleMirror_def Let_def isExternalRequest_def after_resolve_def split: option.splits)
  have rq: "req ?c2 = req c" by (simp add: after_resolve_def split: option.splits)
  have tr: "attempts (trace ?c2) = attempts (trace c)" by (simp add: after_resolve_def split: option.splits)
  have bd: "body ?c2 = body c" by (simp add: after_resolve_def split: option.splits)
  have c1: "client_view ?c1 = client_view c" by simp
  have cv: "client_view ?c2 = client_view (after_resolve rerr c)"
  proof (cases rerr)
    case None
    with c1 show ?thesis by (simp add: after_resolve_def)
  next
    case (Some err)
    with client_view_cong(1)[OF c1, of 500 err] show ?thesis by (simp add: after_resolve_def)
  qed
  show "attempts (trace (handleMirror r w c key)) =
           attempts (trace c) @ upto_first_success (peer_ok w (req c)) (take (deadlineAfter w) ms)"
    using mirror_loop_attempts[OF assms(2), of key "deadlineAfter w" closed ?c2] hm rq tr by simp
  show "body (handleMirror r w c key) = body c @ forwarded_bytes w (req c) (take (deadlineAfter w) ms)"
    using mirror_loop_body[OF assms(2), of key "deadlineAfter w" closed ?c2] hm rq bd by simp
  show "client_view (handleMirror r w c key) =
           client_view (case List.find (peer_ok w (req c)) (take (deadlineAfter w) ms) of
              None \<Rightarrow> gave_up key (deadlineAfter w) (Chan ms closed) (after_resolve rerr c)
            | Some u \<Rightarrow> respond_200 (peer_header w (req c) u) (peer_body w (req c) u)
                          (clientWriteErr w) (after_resolve rerr c))"
  proof (cases "List.find (peer_ok w (req c)) (take (deadlineAfter w) ms)")
    case None
    with mirror_loop_view[OF assms(2), of key "deadlineAfter w" closed ?c2] hm rq
    have "client_view (handleMirror r w c key) = client_view (gave_up key (deadlineAfter w) (Chan ms closed) ?c2)"
      by simp
    also have "\<dots> = client_view (gave_up key (deadlineAfter w) (Chan ms closed) (after_resolve rerr c))"
      by (rule client_view_gave_up[OF cv])
    finally show ?thesis using None by simp
  next
    case (Some u)
    with mirror_loop_view[OF assms(2), of key "deadlineAfter w" closed ?c2] hm rq
    have "client_view (handleMirror r w c key) =
        client_view (respond_200 (peer_header w (req c) u) (peer_body w (req c) u) (clientWriteErr w) ?c2)"
      by simp
    also have "\<dots> = client_view (respond_200 (peer_header w (req c) u) (peer_body w (req c) u)
        (clientWriteErr w) (after_resolve rerr c))"
      by (rule client_view_cong(3)[OF cv])
    finally show ?thesis using Some by simp
  qed
qed

theorem failover_forwards_only_first_success_witness:
  "router_Resolve (router (demo_registry True (router_yielding (Chan [peer1, peer2] True) None)))
       ''docker.io/foo:latest''
       (isExternalRequest (demo_registry True (router_yielding (Chan [peer1, peer2] True) None)) mirror_context)
       (resolveRetries (demo_registry True (router_yielding (Chan [peer1, peer2] True) None)))
     = (Chan [peer1, peer2] True, None)
   \<and> list_all (\<lambda>m. urlParse (demo_world peers_500_then_200 5) m = Inr m) [peer1, peer2]
   \<and> roundTrip (demo_world peers_500_then_200 5) peer1 (req mirror_context)
       = Response 500 [''X-From'' \<mapsto> [''P1'']] ''P1''
   \<and> attempts (trace (handleMirror (demo_registry True (router_yielding (Chan [peer1, peer2] True) None))
         (demo_world peers_500_then_200 5) mirror_context ''docker.io/foo:latest'')) = [peer1, peer2]
   \<and> body (handleMirror (demo_registry True (router_yielding (Chan [peer1, peer2] True) None))
         (demo_world peers_500_then_200 5) mirror_context ''docker.io/foo:latest'') = ''X''
   \<and> client_view (handleMirror (demo_registry True (router_yielding (Chan [peer1, peer2] True) None))
         (demo_world peers_500_then_200 5) mirror_context ''docker.io/foo:latest'')
       = (200, True, [''X-From'' \<mapsto> [''P2'']], ''X'')"
proof -
  let ?r = "demo_registry True (router_yielding (Chan [peer1, peer2] True) None)"
  let ?w = "demo_world peers_500_then_200 5"
  have h1: "router_Resolve (router ?r) ''docker.io/foo:latest'' (isExternalRequest ?r mirror_context) (resolveRetries ?r)
      = (Chan [peer1, peer2] True, None)"
    by (simp add: demo_registry_def router_yielding_def)
  have h2: "\<forall>m \<in> set [peer1, peer2]. urlParse ?w m = Inr m"
    by (simp add: demo_world_def)
  have p1: "roundTrip ?w peer1 (req mirror_context) = Response 500 [''X-From'' \<mapsto> [''P1'']] ''P1''"
    by (simp add: demo_world_def peers_500_then_200_def)
  have e1: "attempts (trace mirror_context) @ upto_first_success (peer_ok ?w (req mirror_context)) (take (deadlineAfter ?w) [peer1, peer2]) = [peer1, peer2]"
    by code_simp
  have e2: "body mirror_context @ forwarded_bytes ?w (req mirror_context) (take (deadlineAfter ?w) [peer1, peer2]) = ''X''"
    by code_simp
  have f: "List.find (peer_ok ?w (req mirror_context)) (take (deadlineAfter ?w) [peer1, peer2]) = Some peer2"
    by code_simp
  have e3: "client_view (respond_200 (peer_header ?w (req mirror_context) peer2) (peer_body ?w (req mirror_context) peer2)
               (clientWriteErr ?w) (after_resolve None mirror_context))
         = (200, True, [''X-From'' \<mapsto> [''P2'']], ''X'')"
    by (simp add: client_view_def respond_200_def after_resolve_def mirror_context_def new_context_def
        peer_header_def peer_body_def demo_world_def peers_500_then_200_def peer1_def peer2_def
        copyHeader_def fun_eq_iff)
  from failover_forwards_only_first_success [OF h1 h2] e1 e2 e3 f
  have "attempts (trace (handleMirror ?r ?w mirror_context ''docker.io/foo:latest'')) = [peer1, peer2]
      \<and> body (handleMirror ?r ?w mirror_context ''docker.io/foo:latest'') = ''X''
      \<and> client_view (handleMirror ?r ?w mirror_context ''docker.io/foo:latest'')
          = (200, True, [''X-From'' \<mapsto> [''P2'']], ''X'')"
    by simp
  with h1 h2 p1 show ?thesis by (simp add: list_all_iff)
qed

subsection \<open>The mirror proxy: no mirror found\<close>

lemma fields_gin [simp]:
  "status (log_effect ef c) = status c"
  "written (log_effect ef c) = written c"
  "errors (log_effect ef c) = errors c"
  "written (AbortWithError code e c) = True"
  "errors (AbortWithError code e c) = errors c @ [e]"
  "\<not> written c \<Longrightarrow> 0 < code \<Longrightarrow> status (AbortWithError code e c) = code"
  "written c \<Longrightarrow> status (AbortWithError code e c) = status c"
  "status c = code \<Longrightarrow> status (AbortWithError code e c) = code"
  by (simp_all add: gin_defs Let_def)

lemma logged_attempts_fields [simp]:
  "status (logged_attempts us c) = status c"
  "written (logged_attempts us c) = written c"
  "errors (logged_attempts us c) = errors c"
  "body (logged_attempts us c) = body c"
  "req (logged_attempts us c) = req c"
  "trace (logged_attempts us c) = trace c @ map ProxyAttempt us"
  by (simp_all add: logged_attempts_def)

lemma logged_attempts_Nil [simp]: "logged_attempts [] c = c"
  by (simp add: logged_attempts_def)

lemma logged_attempts_Cons:
  "logged_attempts (u # us) c = logged_attempts us (log_effect (ProxyAttempt u) c)"
  by (simp add: logged_attempts_def log_effect_def)

lemma mirror_loop_all_fail:
  "\<forall>m \<in> set (take n ms). urlParse w m = Inr m \<and> \<not> peer_ok w (req c) m \<Longrightarrow>
   mirror_loop w key n (Chan ms cl) c =
     (if closed_first n (Chan ms cl)
      then AbortWithError 500 resolution_exhausted (logged_attempts (take n ms) c)
      else on_deadline key (logged_attempts (take n ms) c))"
proof (induction ms arbitrary: n c)
  case Nil
  then show ?case by (cases n; cases cl) simp_all
next
  case (Cons m ms)
  show ?case
  proof (cases n)
    case 0
    then show ?thesis by (cases cl) simp_all
  next
    case (Suc k)
    with Cons.prems have f: "\<not> peer_ok w (req c) m" and p: "urlParse w m = Inr m"
      and rest: "\<forall>x \<in> set (take k ms). urlParse w x = Inr x \<and> \<not> peer_ok w (req (log_effect (ProxyAttempt m) c)) x"
      by simp_all
    from Cons.IH[OF rest] proxy_fail[OF f] p Suc show ?thesis
      by (cases cl) (simp_all add: logged_attempts_Cons)
  qed
qed

lemma mirror_loop_NilChan: "mirror_loop w key n NilChan c = on_deadline key c"
  by (cases n) simp_all

text \<open>
  C3 (as amended). In \<open>handleMirror\<close>, when \<open>router.Resolve\<close> returned no error, nothing
  has been written yet, and no candidate received before the deadline succeeds: if the
  select takes the deadline case, the response status is 404 and the error
  \<open>could not resolve mirror for key: {key}\<close> is pushed on \<open>c.Errors\<close>; if it sees the
  channel closed first, the status is 500 and the error is
  \<open>mirror resolution has been exhausted\<close>. In both cases no body is written: the
  messages are recorded on the context, not sent.
\<close>

theorem unresolved_mirror_status:
  assumes "router_Resolve (router r) key (isExternalRequest r c) (resolveRetries r) = (ch, None)"
      and "\<forall>m \<in> set (take (deadlineAfter w) (chan_items ch)). urlParse w m = Inr m \<and> \<not> peer_ok w (req c) m"
      and "\<not> written c"
  shows "(if closed_first (deadlineAfter w) ch
          then status (handleMirror r w c key) = 500
             \<and> errors (handleMirror r w c key) = errors c @ [resolution_exhausted]
          else status (handleMirror r w c key) = 404
             \<and> errors (handleMirror r w c key) = errors c @ [could_not_resolve key])
       \<and> body (handleMirror r w c key) = body c"
proof (cases ch)
  case NilChan
  with assms show ?thesis
    by (simp add: handleMirror_def Let_def isExternalRequest_def mirror_loop_NilChan on_deadline_def)
next
  case (Chan ms cl)
  let ?c1 = "log_effect (RouterResolve key (isExternalRequest r c) (resolveRetries r)) (c\<lparr>handler_key := Some ''mirror''\<rparr>)"
  from assms(2) Chan have "\<forall>m \<in> set (take (deadlineAfter w) ms). urlParse w m = Inr m \<and> \<not> peer_ok w (req ?c1) m"
    by simp
  from mirror_loop_all_fail[OF this, of key cl] assms(1,3) Chan show ?thesis
    by (simp add: handleMirror_def Let_def isExternalRequest_def on_deadline_def)
qed

theorem unresolved_mirror_status_witness:
  "router_Resolve (router (demo_registry True (router_yielding (Chan [peer1] False) None))) ''docker.io/foo:latest''
      (isExternalRequest (demo_registry True (router_yielding (Chan [peer1] False) None)) mirror_context)
      (resolveRetries (demo_registry True (router_yielding (Chan [peer1] False) None))) = (Chan [peer1] False, None)
   \<and> list_all (\<lambda>m. urlParse (demo_world peers_all_down 5) m = Inr m
                   \<and> \<not> peer_ok (demo_world peers_all_down 5) (req mirror_context) m)
        (take (deadlineAfter (demo_world peers_all_down 5)) (chan_items (Chan [peer1] False)))
   \<and> \<not> written mirror_context
   \<and> \<not> closed_first (deadlineAfter (demo_world peers_all_down 5)) (Chan [peer1] False)
   \<and> status (handleMirror (demo_registry True (router_yielding (Chan [peer1] False) None))
        (demo_world peers_all_down 5) mirror_context ''docker.io/foo:latest'') = 404
   \<and> errors (handleMirror (demo_registry True (router_yielding (Chan [peer1] False) None))
        (demo_world peers_all_down 5) mirror_context ''docker.io/foo:latest'')
      = [Err ''could not resolve mirror for key: docker.io/foo:latest'']
   \<and> body (handleMirror (demo_registry True (router_yielding (Chan [peer1] False) None))
        (demo_world peers_all_down 5) mirror_context ''docker.io/foo:latest'') = []
   \<and> closed_first (deadlineAfter (demo_world peers_all_down 5)) (Chan [peer1] True)
   \<and> status (handleMirror (demo_registry True (router_yielding (Chan [peer1] True) None))
        (demo_world peers_all_down 5) mirror_context ''docker.io/foo:latest'') = 500
   \<and> errors (handleMirror (demo_registry True (router_yielding (Chan [peer1] True) None))
        (demo_world peers_all_down 5) mirror_context ''docker.io/foo:latest'')
      = [Err ''mirror resolution has been exhausted'']"
proof -
  let ?w = "demo_world peers_all_down 5"
  let ?rd = "demo_registry True (router_yielding (Chan [peer1] False) None)"
  let ?rc = "demo_registry True (router_yielding (Chan [peer1] True) None)"
  have d1: "router_Resolve (router ?rd) ''docker.io/foo:latest'' (isExternalRequest ?rd mirror_context)
      (resolveRetries ?rd) = (Chan [peer1] False, None)"
    by (simp add: demo_registry_def router_yielding_def)
  have c1: "router_Resolve (router ?rc) ''docker.io/foo:latest'' (isExternalRequest ?rc mirror_context)
      (resolveRetries ?rc) = (Chan [peer1] True, None)"
    by (simp add: demo_registry_def router_yielding_def)
  have d2: "\<forall>m \<in> set (take (deadlineAfter ?w) (chan_items (Chan [peer1] False))).
      urlParse ?w m = Inr m \<and> \<not> peer_ok ?w (req mirror_context) m"
    by (simp add: demo_world_def peer_ok_def peers_all_down_def)
  have c2: "\<forall>m \<in> set (take (deadlineAfter ?w) (chan_items (Chan [peer1] True))).
      urlParse ?w m = Inr m \<and> \<not> peer_ok ?w (req mirror_context) m"
    by (simp add: demo_world_def peer_ok_def peers_all_down_def)
  have nw: "\<not> written mirror_context"
    by (simp add: mirror_context_def)
  have e: "errors mirror_context = []" "body mirror_context = []"
    by (simp_all add: mirror_context_def)
  have df: "\<not> closed_first (deadlineAfter ?w) (Chan [peer1] False)"
    by simp
  have cf: "closed_first (deadlineAfter ?w) (Chan [peer1] True)"
    by (simp add: demo_world_def)
  from unresolved_mirror_status [OF d1 d2 nw] df e
  have dl: "status (handleMirror ?rd ?w mirror_context ''docker.io/foo:latest'') = 404
      \<and> errors (handleMirror ?rd ?w mirror_context ''docker.io/foo:latest'')
          = [Err ''could not resolve mirror for key: docker.io/foo:latest'']
      \<and> body (handleMirror ?rd ?w mirror_context ''docker.io/foo:latest'') = []"
    by (simp add: could_not_resolve_def)
  from unresolved_mirror_status [OF c1 c2 nw] cf e
  have cl: "status (handleMirror ?rc ?w mirror_context ''docker.io/foo:latest'') = 500
      \<and> errors (handleMirror ?rc ?w mirror_context ''docker.io/foo:latest'')
          = [Err ''mirror resolution has been exhausted'']"
    by (simp add: resolution_exhausted_def)
  from d1 d2 nw df dl cf cl show ?thesis
    unfolding list_all_iff by blast
qed

text \<open>
  On a resolve timeout the client gets status 404 and an empty body, not the body
  \<open>could not resolve mirror for key: docker.io/foo:latest\<close>.
\<close>

theorem timeout_body_counterexample:
  "status (handleMirror (demo_registry True (router_yielding (Chan [peer1] False) None))
        (demo_world peers_all_down 5) mirror_context ''docker.io/foo:latest'') = 404
   \<and> body (handleMirror (demo_registry True (router_yielding (Chan [peer1] False) None))
        (demo_world peers_all_down 5) mirror_context ''docker.io/foo:latest'') = []
   \<and> body (handleMirror (demo_registry True (router_yielding (Chan [peer1] False) None))
        (demo_world peers_all_down 5) mirror_context ''docker.io/foo:latest'')
       \<noteq> ''could not resolve mirror for key: docker.io/foo:latest''"
  by code_simp

subsection \<open>The latest gate\<close>

text \<open>
  C5, at the failing input. With \<open>resolveLatestTag\<close> off, a request for
  \<open>/v2/foo/manifests/latest\<close> with \<open>ns=localhost:5000\<close> has the reference
  \<open>localhost:5000/foo:latest\<close>; \<open>strings.Cut\<close> cuts it at the colon of the port, the
  part after it is \<open>5000/foo:latest\<close> and not \<open>latest\<close>, and the request is resolved
  through the router and proxied to the peers, with status 200. The same request with
  \<open>ns=docker.io\<close> is answered 404 with no call at all.
\<close>

theorem latest_gate_missed_for_registry_with_port:
  "\<not> resolveLatestTag (demo_registry False (router_yielding (Chan [peer1, peer2] True) None))
   \<and> parsePathComponents (demo_world peers_500_then_200 5) ''localhost:5000'' ''/v2/foo/manifests/latest''
       = Inr (''localhost:5000/foo:latest'', [], ReferenceTypeManifest)
   \<and> strings_Cut ''localhost:5000/foo:latest'' (CHR '':'') = (''localhost'', ''5000/foo:latest'', True)
   \<and> trace (registryHandler (demo_registry False (router_yielding (Chan [peer1, peer2] True) None))
         (demo_world peers_500_then_200 5)
         (new_context (demo_request ''/v2/foo/manifests/latest'' ''localhost:5000'' Map.empty)))
       = [RouterResolve ''localhost:5000/foo:latest'' False 3, ProxyAttempt peer1, ProxyAttempt peer2]
   \<and> status (registryHandler (demo_registry False (router_yielding (Chan [peer1, peer2] True) None))
         (demo_world peers_500_then_200 5)
         (new_context (demo_request ''/v2/foo/manifests/latest'' ''localhost:5000'' Map.empty))) = 200
   \<and> body (registryHandler (demo_registry False (router_yielding (Chan [peer1, peer2] True) None))
         (demo_world peers_500_then_200 5)
         (new_context (demo_request ''/v2/foo/manifests/latest'' ''localhost:5000'' Map.empty))) = ''X''
   \<and> trace (registryHandler (demo_registry False (router_yielding (Chan [peer1, peer2] True) None))
         (demo_world peers_500_then_200 5)
         (new_context (demo_request ''/v2/foo/manifests/latest'' ''docker.io'' Map.empty))) = []
   \<and> status (registryHandler (demo_registry False (router_yielding (Chan [peer1, peer2] True) None))
         (demo_world peers_500_then_200 5)
         (new_context (demo_request ''/v2/foo/manifests/latest'' ''docker.io'' Map.empty))) = 404"
  by code_simp

subsection \<open>A blob missing from the local store\<close>

text \<open>
  C6, at the failing inputs. A GET or HEAD request for a blob that arrives with the
  header \<open>X-Spegel-Mirrored: true\<close> and whose digest the local store cannot give the
  size of is answered by \<open>handleBlob\<close> with status 500, not with the 404 that a missing
  manifest (\<open>handleManifest\<close>) and a missing tag (\<open>Resolve\<close> in \<open>registryHandler\<close>)
  get. No byte is written, and the only call is the size query.
\<close>

theorem missing_blob_answered_500:
  assumes "req_method rq = ''GET'' \<or> req_method rq = ''HEAD''"
      and "path_Clean (url_path rq) \<noteq> ''/v2''"
      and "parsePathComponents w (Query (new_context rq) ''ns'') (url_path rq) = Inr (ref, dgst, ReferenceTypeBlob)"
      and "dgst \<noteq> []"
      and "\<not> latest_gate r ref"
      and "Header_Get (header rq) MirroredHeaderKey = ''true''"
      and "GetSize (ociClient r) dgst = Inl err"
  shows "status (registryHandler r w (new_context rq)) = 500
       \<and> body (registryHandler r w (new_context rq)) = []
       \<and> trace (registryHandler r w (new_context rq)) = [StoreGetSize dgst]
       \<and> errors (registryHandler r w (new_context rq)) = [err]"
  using assms
  by (auto simp add: registryHandler_def serve_local_def handleBlob_def Let_def)

theorem missing_blob_answered_500_witness:
  "(req_method blob_request = ''GET'' \<or> req_method blob_request = ''HEAD'')
   \<and> path_Clean (url_path blob_request) \<noteq> ''/v2''
   \<and> parsePathComponents (demo_world peers_500_then_200 5) (Query (new_context blob_request) ''ns'') (url_path blob_request)
        = Inr ([], ''sha256:abc'', ReferenceTypeBlob)
   \<and> \<not> latest_gate (demo_registry False (router_yielding (Chan [peer1] True) None)) []
   \<and> Header_Get (header blob_request) MirroredHeaderKey = ''true''
   \<and> GetSize (ociClient (demo_registry False (router_yielding (Chan [peer1] True) None))) ''sha256:abc'' = Inl (Err ''not found'')
   \<and> status (registryHandler (demo_registry False (router_yielding (Chan [peer1] True) None))
         (demo_world peers_500_then_200 5) (new_context blob_request)) = 500
   \<and> body (registryHandler (demo_registry False (router_yielding (Chan [peer1] True) None))
         (demo_world peers_500_then_200 5) (new_context blob_request)) = []
   \<and> trace (registryHandler (demo_registry False (router_yielding (Chan [peer1] True) None))
         (demo_world peers_500_then_200 5) (new_context blob_request)) = [StoreGetSize ''sha256:abc'']"
proof -
  let ?r = "demo_registry False (router_yielding (Chan [peer1] True) None)"
  let ?w = "demo_world peers_500_then_200 5"
  have h1: "req_method blob_request = ''GET'' \<or> req_method blob_request = ''HEAD''" by code_simp
  have h2: "path_Clean (url_path blob_request) \<noteq> ''/v2''" by code_simp
  have h3: "parsePathComponents ?w (Query (new_context blob_request) ''ns'') (url_path blob_request)
        = Inr ([], ''sha256:abc'', ReferenceTypeBlob)" by code_simp
  have h4: "''sha256:abc'' \<noteq> []" by simp
  have h5: "\<not> latest_gate ?r []" by (simp add: latest_gate_def)
  have h6: "Header_Get (header blob_request) MirroredHeaderKey = ''true''" by code_simp
  have h7: "GetSize (ociClient ?r) ''sha256:abc'' = Inl (Err ''not found'')"
    by (simp add: demo_registry_def missing_store_def)
  from missing_blob_answered_500 [OF h1 h2 h3 h4 h5 h6 h7] h1 h2 h3 h5 h6 h7
  show ?thesis by simp
qed

subsection \<open>A failing resolver\<close>

text \<open>
  C7, at the failing input. When \<open>router.Resolve\<close> returns a nil channel and an error,
  \<open>handleMirror\<close> records status 500 and goes on into its loop, where the select can
  only leave through the deadline case: whatever the deadline and the peers, the handler
  returns only once the resolve timeout has expired (it makes no proxy attempt).
\<close>

theorem resolve_error_waits_for_deadline:
  "trace (handleMirror (demo_registry True (router_yielding NilChan (Some (Err ''resolve failed''))))
        (demo_world peers n) mirror_context key) = [RouterResolve key False 3, ResolveDeadline]
   \<and> status (handleMirror (demo_registry True (router_yielding NilChan (Some (Err ''resolve failed''))))
        (demo_world peers n) mirror_context key) = 500
   \<and> errors (handleMirror (demo_registry True (router_yielding NilChan (Some (Err ''resolve failed''))))
        (demo_world peers n) mirror_context key) = [Err ''resolve failed'', could_not_resolve key]"
  by (simp add: handleMirror_def Let_def mirror_loop_NilChan on_deadline_def isExternalRequest_def
      demo_registry_def router_yielding_def demo_world_def mirror_context_def demo_request_def)

section \<open>Properties of the image walk\<close>

subsection \<open>The walk, case by case\<close>

lemma walk_manifest_doc:
  "cs (digest d) = Some (Manifest cfg ls) \<Longrightarrow> walk (Suc n) cs m d = Inr (d # cfg # ls)"
  by simp

lemma walk_missing:
  "cs (digest d) = None \<Longrightarrow> walk (Suc n) cs m d = Inl (NotFound (digest d))"
  by simp

lemma walk_index_none:
  "cs (digest d) = Some (Index ms) \<Longrightarrow> filter (accepts m) ms = [] \<Longrightarrow>
   walk (Suc n) cs m d = Inl (NoMatchingPlatform (digest d))"
  by simp

lemma walk_index_some:
  "cs (digest d) = Some (Index ms) \<Longrightarrow> filter (accepts m) ms = c # sel \<Longrightarrow>
   walk (Suc n) cs m d =
     (case walk n cs m (best_of m c sel) of Inl e \<Rightarrow> Inl e | Inr ds \<Rightarrow> Inr (d # ds))"
  by simp

declare walk.simps(2) [simp del]

lemma best_of_in: "best_of m b cs \<in> set (b # cs)"
  by (induction cs arbitrary: b) auto

lemma best_of_accepted:
  assumes "filter (accepts m) ms = c # sel"
  shows "best_of m c sel \<in> set ms" and "accepts m (best_of m c sel)"
proof -
  have "best_of m c sel \<in> set (filter (accepts m) ms)"
    using best_of_in[of m c sel] assms by simp
  then show "best_of m c sel \<in> set ms" and "accepts m (best_of m c sel)" by simp_all
qed

subsection \<open>The order of the digests\<close>


text \<open>The four cases of TestGetImageDigests, with the lists the test expects.\<close>

lemma test_cases_of_GetImageDigests:
  "WalkImage 8 reference_images reference_content linux_amd64 reference_image = Inr expected_amd64_keys"
  "WalkImage 8 reference_images reference_content linux_amd64 image_without_media_type
     = Inr (index_without_media_type_digest # tl expected_amd64_keys)"
  "WalkImage 8 reference_images reference_content linux_arm64 reference_image = Inr expected_arm64_keys"
  "WalkImage 8 reference_images reference_content linux_arm reference_image = Inr expected_arm_keys"
  by code_simp+





subsection \<open>Attestation manifests\<close>

lemma filter_accepts_strip:
  "filter (accepts m) (filter (\<lambda>d. \<not> is_attestation d) ms) = filter (accepts m) ms"
  by (induction ms) (auto simp add: accepts_def)

lemma walk_strip_attestations:
  "walk n (strip_attestations cs) m d = walk n cs m d"
proof (induction n arbitrary: d)
  case 0
  show ?case by simp
next
  case (Suc n)
  show ?case
  proof (cases "cs (digest d)")
    case None
    then have "strip_attestations cs (digest d) = None" by (simp add: strip_attestations_def)
    with None show ?thesis by (simp add: walk_missing)
  next
    case (Some doc)
    show ?thesis
    proof (cases doc)
      case (Manifest cfg ls)
      with Some have "strip_attestations cs (digest d) = Some (Manifest cfg ls)"
        by (simp add: strip_attestations_def)
      with Some Manifest show ?thesis by (simp add: walk_manifest_doc)
    next
      case (Index ms)
      with Some have i: "cs (digest d) = Some (Index ms)" by simp
      then have s: "strip_attestations cs (digest d) = Some (Index (filter (\<lambda>d. \<not> is_attestation d) ms))"
        by (simp add: strip_attestations_def)
      show ?thesis
      proof (cases "filter (accepts m) ms")
        case Nil
        then have "filter (accepts m) (filter (\<lambda>d. \<not> is_attestation d) ms) = []"
          by (simp only: filter_accepts_strip)
        from walk_index_none[where cs="strip_attestations cs" and d=d, OF s this]
             walk_index_none[where cs=cs and d=d, OF i Nil]
        show ?thesis by simp
      next
        case (Cons c sel)
        then have "filter (accepts m) (filter (\<lambda>d. \<not> is_attestation d) ms) = c # sel"
          by (simp only: filter_accepts_strip)
        from walk_index_some[where cs="strip_attestations cs" and d=d, OF s this]
             walk_index_some[where cs=cs and d=d, OF i Cons] Suc.IH
        show ?thesis by simp
      qed
    qed
  qed
qed

lemma walk_accounted_for:
  "walk n cs m d = Inr ds \<Longrightarrow> x \<in> set ds \<Longrightarrow> accounted_for cs m d (digest x)"
proof (induction n arbitrary: d ds)
  case 0
  then show ?case by simp
next
  case (Suc n)
  show ?case
  proof (cases "cs (digest d)")
    case None
    with Suc.prems show ?thesis by (simp add: walk_missing)
  next
    case (Some doc)
    show ?thesis
    proof (cases doc)
      case (Manifest cfg ls)
      with Some have mf: "cs (digest d) = Some (Manifest cfg ls)" by simp
      with Suc.prems have "x = d \<or> x \<in> set (cfg # ls)" by (auto simp add: walk_manifest_doc)
      then show ?thesis
      proof
        assume "x = d"
        then show ?thesis by (simp add: accounted_for_def)
      next
        assume "x \<in> set (cfg # ls)"
        then have "digest x \<in> set (map digest (cfg # ls))" by (simp only: set_map) (rule imageI)
        with mf show ?thesis unfolding accounted_for_def by blast
      qed
    next
      case (Index ms)
      with Some have i: "cs (digest d) = Some (Index ms)" by simp
      show ?thesis
      proof (cases "filter (accepts m) ms")
        case Nil
        with i Suc.prems show ?thesis by (simp add: walk_index_none)
      next
        case (Cons c sel)
        from Suc.prems(1) obtain rest where
          r: "walk n cs m (best_of m c sel) = Inr rest" and ds: "ds = d # rest"
          by (auto simp add: walk_index_some[where cs=cs and d=d, OF i Cons] split: sum.splits)
        show ?thesis
        proof (cases "x = d")
          case True
          then show ?thesis by (simp add: accounted_for_def)
        next
          case False
          with Suc.prems(2) ds have "x \<in> set rest" by simp
          from Suc.IH[OF r this] have a: "accounted_for cs m (best_of m c sel) (digest x)" .
          from best_of_accepted[OF Cons]
          have b: "best_of m c sel \<in> set ms" "accepts m (best_of m c sel)" by simp_all
          from a have "digest x = digest (best_of m c sel)
              \<or> (\<exists>i ms c. cs i = Some (Index ms) \<and> c \<in> set ms \<and> accepts m c \<and> digest c = digest x)
              \<or> (\<exists>j cfg ls. cs j = Some (Manifest cfg ls) \<and> digest x \<in> set (map digest (cfg # ls)))"
            by (simp only: accounted_for_def)
          then show ?thesis
          proof (elim disjE)
            assume "digest x = digest (best_of m c sel)"
            with i b have "\<exists>i ms c. cs i = Some (Index ms) \<and> c \<in> set ms \<and> accepts m c \<and> digest c = digest x"
              by metis
            then show ?thesis by (simp only: accounted_for_def) blast
          next
            assume "\<exists>i ms c. cs i = Some (Index ms) \<and> c \<in> set ms \<and> accepts m c \<and> digest c = digest x"
            then show ?thesis by (simp only: accounted_for_def) blast
          next
            assume "\<exists>j cfg ls. cs j = Some (Manifest cfg ls) \<and> digest x \<in> set (map digest (cfg # ls))"
            then show ?thesis by (simp only: accounted_for_def) blast
          qed
        qed
      qed
    qed
  qed
qed

text \<open>
  C8 (as amended). For every image, depth and matcher: the result of \<open>WalkImage\<close>,
  success or failure, is the same as on the content store with the attestation
  descriptors (platform architecture \<open>unknown\<close>) removed from every index, so their
  presence never makes the walk fail; and every digest of the output is the digest of the
  root, or of a child of an index that the matcher accepts and that is therefore no
  attestation manifest, or of a config or layer of a manifest. A digest that only
  descriptors with architecture \<open>unknown\<close> carry is in no output.
\<close>

theorem attestations_skipped:
  "WalkImage depth imgs (strip_attestations cs) m img = WalkImage depth imgs cs m img
   \<and> (WalkImage depth imgs cs m img = Inr ks \<longrightarrow> imgs (img_name img) = Some root \<longrightarrow>
        (\<forall>k \<in> set ks. accounted_for cs m root k))"
proof (intro conjI impI ballI)
  show "WalkImage depth imgs (strip_attestations cs) m img = WalkImage depth imgs cs m img"
    by (simp add: WalkImage_def walk_strip_attestations split: option.splits)
next
  fix k
  assume w: "WalkImage depth imgs cs m img = Inr ks" and r: "imgs (img_name img) = Some root"
    and k: "k \<in> set ks"
  from w r obtain ds where ds: "walk depth cs m root = Inr ds" and ks: "ks = map digest ds"
    by (auto simp add: WalkImage_def split: sum.splits)
  from k ks obtain x where "x \<in> set ds" "k = digest x" by auto
  with walk_accounted_for[OF ds] show "accounted_for cs m root k" by simp
qed

theorem attestations_skipped_witness:
  "WalkImage 8 reference_images (strip_attestations reference_content) any_platform reference_image
     = WalkImage 8 reference_images reference_content any_platform reference_image
   \<and> WalkImage 8 reference_images reference_content any_platform reference_image = Inr expected_amd64_keys
   \<and> reference_images (img_name reference_image) = Some reference_root
   \<and> list_all (accounted_for reference_content any_platform reference_root) expected_amd64_keys
   \<and> length attestation_digests = 3
   \<and> list_all (\<lambda>k. reference_content k = None) attestation_digests
   \<and> list_all (\<lambda>k. k \<notin> set expected_amd64_keys) attestation_digests"
proof -
  have a: "WalkImage 8 reference_images (strip_attestations reference_content) any_platform reference_image
     = WalkImage 8 reference_images reference_content any_platform reference_image"
    using attestations_skipped [THEN conjunct1] .
  have h1: "WalkImage 8 reference_images reference_content any_platform reference_image = Inr expected_amd64_keys"
    by code_simp
  have h2: "reference_images (img_name reference_image) = Some reference_root"
    by code_simp
  have b: "list_all (accounted_for reference_content any_platform reference_root) expected_amd64_keys"
    unfolding list_all_iff
    using attestations_skipped [where depth=8 and imgs=reference_images and cs=reference_content
        and m=any_platform and img=reference_image and ks=expected_amd64_keys and root=reference_root,
        THEN conjunct2, THEN mp, THEN mp, OF h1 h2] .
  have d: "length attestation_digests = 3"
    by code_simp
  have e: "list_all (\<lambda>k. reference_content k = None) attestation_digests"
    by code_simp
  have f: "list_all (\<lambda>k. k \<notin> set expected_amd64_keys) attestation_digests"
    by code_simp
  show ?thesis by (intro conjI a h1 h2 b d e f)
qed

text \<open>
  A digest of a descriptor with platform architecture \<open>unknown\<close> does appear in the
  output when the index lists the same manifest for a platform the matcher accepts.
\<close>

theorem attestation_digest_counterexample:
  "list_ex (\<lambda>d. is_attestation d \<and> digest d = ''sha256:aaaa'') twice_listed_children
   \<and> WalkImage 8 twice_listed_images twice_listed_content linux_amd64 twice_listed_image
       = Inr [''sha256:0000'', ''sha256:aaaa'', ''sha256:cccc'']"
  by code_simp

subsection \<open>No matching platform\<close>

text \<open>
  C10. If the root of the image is an index none of whose children is accepted, the walk
  (of any depth above zero) fails with \<open>NoMatchingPlatform\<close> naming the digest of that
  index, and returns no list; so it does for matcher \<open>darwin/arm64\<close> on the reference
  index, which names \<open>sha256:e80e...\<close>.
\<close>

theorem no_matching_platform:
  "(imgs (img_name img) = Some root \<longrightarrow> cs (digest root) = Some (Index ms) \<longrightarrow>
      (\<forall>c \<in> set ms. \<not> accepts m c) \<longrightarrow> 0 < depth \<longrightarrow>
      WalkImage depth imgs cs m img = Inl (NoMatchingPlatform (digest root)))
   \<and> WalkImage 8 reference_images reference_content darwin_arm64 reference_image
       = Inl (NoMatchingPlatform ''sha256:e80e36564e9617f684eb5972bf86dc9e9e761216e0d40ff78ca07741ec70725a'')"
proof
  show "imgs (img_name img) = Some root \<longrightarrow> cs (digest root) = Some (Index ms) \<longrightarrow>
      (\<forall>c \<in> set ms. \<not> accepts m c) \<longrightarrow> 0 < depth \<longrightarrow>
      WalkImage depth imgs cs m img = Inl (NoMatchingPlatform (digest root))"
  proof (intro impI)
    assume t: "imgs (img_name img) = Some root" and i: "cs (digest root) = Some (Index ms)"
      and n: "\<forall>c \<in> set ms. \<not> accepts m c" and d: "0 < depth"
    from n have f: "filter (accepts m) ms = []" by (simp add: filter_empty_conv)
    from d obtain k where "depth = Suc k" by (cases depth) auto
    with walk_index_none[where cs=cs and d=root, OF i f] t
    show "WalkImage depth imgs cs m img = Inl (NoMatchingPlatform (digest root))"
      by (simp add: WalkImage_def)
  qed
  show "WalkImage 8 reference_images reference_content darwin_arm64 reference_image
       = Inl (NoMatchingPlatform ''sha256:e80e36564e9617f684eb5972bf86dc9e9e761216e0d40ff78ca07741ec70725a'')"
    by code_simp
qed

theorem no_matching_platform_witness:
  "reference_images (img_name reference_image) = Some reference_root
   \<and> reference_content (digest reference_root) = Some (Index reference_children)
   \<and> list_all (\<lambda>c. \<not> accepts darwin_arm64 c) reference_children
   \<and> (0::nat) < 8
   \<and> WalkImage 8 reference_images reference_content darwin_arm64 reference_image
       = Inl (NoMatchingPlatform (digest reference_root))"
proof -
  have h2: "reference_images (img_name reference_image) = Some reference_root"
    by code_simp
  have h3: "reference_content (digest reference_root) = Some (Index reference_children)"
    by code_simp
  have h4: "list_all (\<lambda>c. \<not> accepts darwin_arm64 c) reference_children"
    by code_simp
  have h5: "\<forall>c \<in> set reference_children. \<not> accepts darwin_arm64 c"
    using h4 by (simp add: list_all_iff)
  have h6: "(0::nat) < 8" by simp
  have g: "WalkImage 8 reference_images reference_content darwin_arm64 reference_image
       = Inl (NoMatchingPlatform (digest reference_root))"
    using no_matching_platform [where imgs=reference_images and img=reference_image and cs=reference_content
        and root=reference_root and ms=reference_children, THEN conjunct1, THEN mp, THEN mp, THEN mp, THEN mp, OF h2 h3 h5 h6] .
  show ?thesis by (intro conjI h2 h3 h4 h6 g)
qed

end
